theory Spec2Isabelle
  imports Main "HOL-Library.Sublist"
begin

section \<open>Python built-ins used by the launcher\<close>

text \<open>
  The launcher \<^verbatim>\<open>tools/foozzie/v8_foozzie.py\<close> is a Python 2 script. Its strings are
  byte strings, modelled as \<^typ>\<open>string\<close>; its integers are unbounded, modelled as
  \<^typ>\<open>int\<close>.
\<close>

definition nl :: string where
  "nl = [CHR 0x0A]"

definition apostrophe :: string where
  "apostrophe = [CHR 0x27]"

text \<open>\<^verbatim>\<open>str.isspace\<close> of one byte in the C locale: space, tab, LF, VT, FF, CR.\<close>

definition isspace :: "char \<Rightarrow> bool" where
  "isspace c = (c = CHR 0x20 \<or> c = CHR 0x09 \<or> c = CHR 0x0A \<or> c = CHR 0x0B
                \<or> c = CHR 0x0C \<or> c = CHR 0x0D)"

text \<open>\<^verbatim>\<open>s.strip()\<close>: leading and trailing whitespace removed.\<close>

definition strip :: "string \<Rightarrow> string" where
  "strip s = rev (dropWhile isspace (rev (dropWhile isspace s)))"

text \<open>
  \<^verbatim>\<open>s.splitlines()\<close> of a byte string: lines end at LF, CR or CR LF; the line
  ends are dropped and a final line end opens no further line.
\<close>

fun splitlines_from :: "string \<Rightarrow> string \<Rightarrow> string list" where
  "splitlines_from cur [] = (if cur = [] then [] else [cur])"
| "splitlines_from cur (c # cs) =
     (if c = CHR 0x0A then cur # splitlines_from [] cs
      else if c = CHR 0x0D then
        (case cs of
           d # ds \<Rightarrow> if d = CHR 0x0A then cur # splitlines_from [] ds
                     else cur # splitlines_from [] cs
         | [] \<Rightarrow> cur # splitlines_from [] cs)
      else splitlines_from (cur @ [c]) cs)"

definition splitlines :: "string \<Rightarrow> string list" where
  "splitlines s = splitlines_from [] s"

text \<open>\<^verbatim>\<open>sep.join(xs)\<close>.\<close>

fun join :: "string \<Rightarrow> string list \<Rightarrow> string" where
  "join sep [] = []"
| "join sep [x] = x"
| "join sep (x # y # ys) = x @ sep @ join sep (y # ys)"

text \<open>\<^verbatim>\<open>str(i)\<close> and \<^verbatim>\<open>'%d' % i\<close> of an integer: its decimal numeral.\<close>

definition digit_char :: "nat \<Rightarrow> char" where
  "digit_char d = ''0123456789'' ! d"

fun digits :: "nat \<Rightarrow> string" where
  "digits n = (if n < 10 then [digit_char n] else digits (n div 10) @ [digit_char (n mod 10)])"

declare digits.simps [simp del]

definition str :: "int \<Rightarrow> string" where
  "str i = (if i < 0 then ''-'' @ digits (nat (- i)) else digits (nat i))"

text \<open>\<^verbatim>\<open>s.endswith(t)\<close>.\<close>

definition endswith :: "string \<Rightarrow> string \<Rightarrow> bool" where
  "endswith s t = suffix t s"

text \<open>\<^verbatim>\<open>x or ''\<close> for \<^verbatim>\<open>x\<close> either \<^verbatim>\<open>None\<close> or a string.\<close>

definition or_empty :: "string option \<Rightarrow> string" where
  "or_empty x = (case x of None \<Rightarrow> [] | Some s \<Rightarrow> if s = [] then [] else s)"

subsection \<open>\<^verbatim>\<open>os.path\<close> (the POSIX flavour)\<close>

definition basename :: "string \<Rightarrow> string" where
  "basename p = rev (takeWhile (\<lambda>c. c \<noteq> CHR ''/'') (rev p))"

definition dirname :: "string \<Rightarrow> string" where
  "dirname p =
     (let head = rev (dropWhile (\<lambda>c. c \<noteq> CHR ''/'') (rev p))
      in if head \<noteq> [] \<and> head \<noteq> replicate (length head) (CHR ''/'')
         then rev (dropWhile (\<lambda>c. c = CHR ''/'') (rev head))
         else head)"

definition path_join :: "string \<Rightarrow> string \<Rightarrow> string" where
  "path_join a b =
     (if prefix ''/'' b then b
      else if a = [] \<or> endswith a ''/'' then a @ b
      else a @ ''/'' @ b)"

section \<open>Exceptions, events and the program monad\<close>

text \<open>
  The three kinds of exception the top-level handler tells apart: \<^verbatim>\<open>SystemExit\<close>,
  an instance of \<^verbatim>\<open>Exception\<close> (with its \<^verbatim>\<open>str\<close>), and a \<^verbatim>\<open>BaseException\<close> that is
  neither, of which \<^verbatim>\<open>KeyboardInterrupt\<close> is the representative.
\<close>

datatype exn = SystemExit | Exception string | KeyboardInterrupt

text \<open>
  The result of \<^verbatim>\<open>v8_commands.Execute\<close>, as far as the launcher looks at it: the two
  methods \<^verbatim>\<open>HasTimedOut()\<close> and \<^verbatim>\<open>HasCrashed()\<close> and the attribute \<^verbatim>\<open>stdout\<close>.
\<close>

record Output =
  HasTimedOut :: bool
  HasCrashed :: bool
  stdout :: string

text \<open>
  What an execution does to the outside, in order: a \<^verbatim>\<open>print\<close> statement (the
  argument, without the line end \<^verbatim>\<open>print\<close> adds), \<^verbatim>\<open>traceback.print_exc\<close>, opening
  a file for reading, and one call of the process runner with its outcome.
\<close>

datatype event =
    Print string
  | PrintExc exn
  | Open string
  | Exec "string list" string int "exn + Output"

text \<open>
  A computation takes the state of the outside world and yields a value or an
  exception, the new world, and the events it caused.
\<close>

type_synonym ('w, 'a) io = "'w \<Rightarrow> (exn + 'a) \<times> 'w \<times> event list"

definition io_return :: "'a \<Rightarrow> ('w, 'a) io" where
  "io_return x w = (Inr x, w, [])"

definition io_raise :: "exn \<Rightarrow> ('w, 'a) io" where
  "io_raise e w = (Inl e, w, [])"

definition io_lift :: "exn + 'a \<Rightarrow> ('w, 'a) io" where
  "io_lift r w = (r, w, [])"

definition io_bind :: "('w, 'a) io \<Rightarrow> ('a \<Rightarrow> ('w, 'b) io) \<Rightarrow> ('w, 'b) io" where
  "io_bind m f w =
     (case m w of
        (Inl e, w1, t1) \<Rightarrow> (Inl e, w1, t1)
      | (Inr x, w1, t1) \<Rightarrow> (case f x w1 of (r, w2, t2) \<Rightarrow> (r, w2, t1 @ t2)))"

definition io_print :: "string \<Rightarrow> ('w, unit) io" where
  "io_print s w = (Inr (), w, [Print s])"

text \<open>\<^verbatim>\<open>assert cond, msg\<close> raises \<^verbatim>\<open>AssertionError(msg)\<close>; without a message its
  \<^verbatim>\<open>str\<close> is empty.\<close>

definition py_assert :: "bool \<Rightarrow> string \<Rightarrow> ('w, unit) io" where
  "py_assert cond msg = (if cond then io_return () else io_raise (Exception msg))"

section \<open>Collaborators\<close>

text \<open>The value \<^verbatim>\<open>json.load\<close> returns. An object lists its members in the
  iteration order of the dictionary, each key once.\<close>

datatype json =
    JNull
  | JBool bool
  | JInt int
  | JFloat string
  | JString string
  | JArray "json list"
  | JObject "(string \<times> json) list"

text \<open>
  The object \<^verbatim>\<open>v8_suppressions.get_suppression\<close> returns. Its methods answer
  \<^verbatim>\<open>None\<close> or a string, or raise.
\<close>

record suppression =
  ignore :: "string \<Rightarrow> exn + string option"
  ignore_by_output1 :: "string \<Rightarrow> exn + string option"
  ignore_by_output2 :: "string \<Rightarrow> exn + string option"
  diff :: "string \<Rightarrow> string \<Rightarrow> exn + string option"

text \<open>
  Everything the script takes from outside its own file: the directory of the script,
  the interpreter path, the file system, the JSON parser, SHA-1, the suppression
  module and the process runner.
\<close>

record 'w env =
  BASE_PATH :: string
  sys_executable :: string
  path_exists :: "string \<Rightarrow> 'w \<Rightarrow> bool"
  path_isfile :: "string \<Rightarrow> 'w \<Rightarrow> bool"
  abspath :: "string \<Rightarrow> string"
  open_read :: "string \<Rightarrow> 'w \<Rightarrow> exn + string"
  json_load :: "string \<Rightarrow> exn + json"
  sha1_hexdigest :: "string \<Rightarrow> exn + string"
  get_suppression :: "string \<Rightarrow> string \<Rightarrow> string \<Rightarrow> string \<Rightarrow> exn + suppression"
  Execute :: "string list \<Rightarrow> string \<Rightarrow> int \<Rightarrow> 'w \<Rightarrow> (exn + Output) \<times> 'w"

definition io_open :: "'w env \<Rightarrow> string \<Rightarrow> ('w, string) io" where
  "io_open env path w = (open_read env path w, w, [Open path])"

definition io_exists :: "'w env \<Rightarrow> string \<Rightarrow> ('w, bool) io" where
  "io_exists env path w = (Inr (path_exists env path w), w, [])"

definition io_isfile :: "'w env \<Rightarrow> string \<Rightarrow> ('w, bool) io" where
  "io_isfile env path w = (Inr (path_isfile env path w), w, [])"

definition io_execute :: "'w env \<Rightarrow> string list \<Rightarrow> string \<Rightarrow> int \<Rightarrow> ('w, Output) io" where
  "io_execute env args cwd timeout w =
     (case Execute env args cwd timeout w of (r, w1) \<Rightarrow> (r, w1, [Exec args cwd timeout r]))"

section \<open>Module constants\<close>

definition CONFIGS :: "(string \<times> string list) list" where
  "CONFIGS =
     [(''default'', []),
      (''validate_asm'', [''--validate-asm'']),
      (''fullcode'', [''--nocrankshaft'', ''--turbo-filter=~'']),
      (''noturbo'', [''--turbo-filter=~'', ''--noturbo-asm'']),
      (''noturbo_opt'', [''--always-opt'', ''--turbo-filter=~'', ''--noturbo-asm'']),
      (''ignition_staging'', [''--ignition-staging'']),
      (''ignition_turbo'', [''--ignition-staging'', ''--turbo'']),
      (''ignition_turbo_opt'', [''--ignition-staging'', ''--turbo'', ''--always-opt''])]"

definition TIMEOUT :: int where
  "TIMEOUT = 3"

definition RETURN_PASS :: int where
  "RETURN_PASS = 0"

definition RETURN_FAIL :: int where
  "RETURN_FAIL = 2"

definition PREAMBLE :: "'w env \<Rightarrow> string list" where
  "PREAMBLE env =
     [path_join (BASE_PATH env) ''v8_mock.js'',
      path_join (BASE_PATH env) ''v8_suppressions.js'']"

definition FLAGS :: "string list" where
  "FLAGS = [''--abort_on_stack_overflow'', ''--expose-gc'', ''--allow-natives-syntax'',
            ''--invoke-weak-callbacks'', ''--omit-quit'', ''--es-staging'']"

definition SUPPORTED_ARCHS :: "string list" where
  "SUPPORTED_ARCHS = [''ia32'', ''x64'', ''arm'', ''arm64'']"

text \<open>\<^verbatim>\<open>FAILURE_HEADER_TEMPLATE % dict(configs=.., sources=.., suppression=..)\<close>.\<close>

definition FAILURE_HEADER_TEMPLATE :: "string \<Rightarrow> string \<Rightarrow> string \<Rightarrow> string" where
  "FAILURE_HEADER_TEMPLATE configs sources suppression_label =
     ''#'' @ nl @
     ''# V8 correctness failure'' @ nl @
     ''# V8 correctness configs: '' @ configs @ nl @
     ''# V8 correctness sources: '' @ sources @ nl @
     ''# V8 correctness suppression: '' @ suppression_label @ nl"

text \<open>The fields \<^verbatim>\<open>FAILURE_TEMPLATE\<close> is formatted with.\<close>

record report_fields =
  configs :: string
  sources :: string
  suppression_label :: string
  first_config_label :: string
  second_config_label :: string
  first_config_flags :: string
  second_config_flags :: string
  first_config_output :: string
  second_config_output :: string
  difference :: string

definition FAILURE_TEMPLATE :: "report_fields \<Rightarrow> string" where
  "FAILURE_TEMPLATE d =
     FAILURE_HEADER_TEMPLATE (configs d) (sources d) (suppression_label d) @
     ''#'' @ nl @
     ''# CHECK'' @ nl @
     ''#'' @ nl @
     ''# Compared '' @ first_config_label d @ '' with '' @ second_config_label d @ nl @
     ''#'' @ nl @
     ''# Flags of '' @ first_config_label d @ '':'' @ nl @
     first_config_flags d @ nl @
     ''# Flags of '' @ second_config_label d @ '':'' @ nl @
     second_config_flags d @ nl @
     ''#'' @ nl @
     ''# Difference:'' @ nl @
     difference d @ nl @
     ''#'' @ nl @
     ''### Start of configuration '' @ first_config_label d @ '':'' @ nl @
     first_config_output d @ nl @
     ''### End of configuration '' @ first_config_label d @ nl @
     ''#'' @ nl @
     ''### Start of configuration '' @ second_config_label d @ '':'' @ nl @
     second_config_output d @ nl @
     ''### End of configuration '' @ second_config_label d @ nl"

section \<open>\<^verbatim>\<open>parse_args\<close>\<close>

text \<open>
  The namespace \<^verbatim>\<open>argparse\<close> returns. \<^verbatim>\<open>--second-d8\<close> has no default, so it may be
  \<^verbatim>\<open>None\<close>. \<^verbatim>\<open>parse_args\<close> adds \<^verbatim>\<open>meta_data_path\<close>.
\<close>

record namespace =
  random_seed :: int
  first_arch :: string
  second_arch :: string
  first_config :: string
  second_config :: string
  first_d8 :: string
  second_d8 :: "string option"
  testcase :: string

record options = namespace +
  meta_data_path :: string

text \<open>
  The command line enters as what \<^verbatim>\<open>parser.parse_args()\<close> makes of it: a namespace,
  or \<^verbatim>\<open>SystemExit\<close> when \<^verbatim>\<open>argparse\<close> rejects it (or prints its help).
\<close>

definition parse_args :: "'w env \<Rightarrow> exn + namespace \<Rightarrow> ('w, options) io" where
  "parse_args env cmdline =
     io_bind (io_lift cmdline) (\<lambda>a.
     io_bind (py_assert (first_arch a \<noteq> second_arch a \<or> first_config a \<noteq> second_config a)
                ''Need either arch or config difference.'') (\<lambda>_.
     io_bind (py_assert (first_arch a \<in> set SUPPORTED_ARCHS) []) (\<lambda>_.
     io_bind (py_assert (second_arch a \<in> set SUPPORTED_ARCHS) []) (\<lambda>_.
     io_bind (py_assert (first_config a \<in> fst ` set CONFIGS) []) (\<lambda>_.
     io_bind (py_assert (second_config a \<in> fst ` set CONFIGS) []) (\<lambda>_.
     io_bind (io_exists env (testcase a)) (\<lambda>e.
     io_bind (if e then io_isfile env (testcase a) else io_return False) (\<lambda>f.
     io_bind (py_assert f
                (''Test case '' @ testcase a @ '' doesn'' @ apostrophe @ ''t exist'')) (\<lambda>_.
     let resources_path =
           path_join (dirname (testcase a))
             (''resources'' @ drop (length ''fuzz'') (basename (testcase a))) in
     io_bind (io_exists env resources_path) (\<lambda>e.
     io_bind (py_assert e
                (''Resources file '' @ resources_path @
                 '' doesn'' @ apostrophe @ ''t exist'')) (\<lambda>_.
     io_bind (io_open env resources_path) (\<lambda>text.
     let resources = splitlines (strip text) in
     io_bind (py_assert (length resources = 1) []) (\<lambda>_.
     let meta = path_join (dirname resources_path) (hd resources) in
     io_bind (io_exists env meta) (\<lambda>e.
     io_bind (py_assert e (''Metadata '' @ meta @ '' doesn'' @ apostrophe @ ''t exist'')) (\<lambda>_.
     let second = (case second_d8 a of
                     None \<Rightarrow> first_d8 a
                   | Some s \<Rightarrow> if s = [] then first_d8 a else s);
         first_abs = abspath env (first_d8 a);
         second_abs = abspath env second in
     io_bind (io_exists env first_abs) (\<lambda>e.
     io_bind (py_assert e []) (\<lambda>_.
     io_bind (io_exists env second_abs) (\<lambda>e.
     io_bind (py_assert e []) (\<lambda>_.
     io_bind (if first_arch a \<noteq> second_arch a
              then py_assert (first_abs \<noteq> second_abs) []
              else io_return ()) (\<lambda>_.
     io_return
       \<lparr>random_seed = random_seed a,
        first_arch = first_arch a,
        second_arch = second_arch a,
        first_config = first_config a,
        second_config = second_config a,
        first_d8 = first_abs,
        second_d8 = Some second_abs,
        testcase = testcase a,
        meta_data_path = meta\<rparr>))))))))))))))))))))"

section \<open>The bailout checks\<close>

definition test_pattern_bailout ::
    "'w env \<Rightarrow> string \<Rightarrow> (string \<Rightarrow> exn + string option) \<Rightarrow> ('w, bool) io" where
  "test_pattern_bailout env tc ignore_fun =
     io_bind (io_open env tc) (\<lambda>text.
     io_bind (io_lift (ignore_fun text)) (\<lambda>r.
     let bug = strip (or_empty r) in
     if bug \<noteq> []
     then io_bind (io_print (FAILURE_HEADER_TEMPLATE [] [] bug)) (\<lambda>_. io_return True)
     else io_return False))"

definition pass_bailout :: "Output \<Rightarrow> int \<Rightarrow> ('w, bool) io" where
  "pass_bailout out step_number =
     (if HasTimedOut out
      then io_bind (io_print (''# V8 correctness - T-I-M-E-O-U-T '' @ str step_number))
             (\<lambda>_. io_return True)
      else if HasCrashed out
      then io_bind (io_print (''# V8 correctness - C-R-A-S-H '' @ str step_number))
             (\<lambda>_. io_return True)
      else io_return False)"

definition fail_bailout ::
    "Output \<Rightarrow> (string \<Rightarrow> exn + string option) \<Rightarrow> ('w, bool) io" where
  "fail_bailout out ignore_by_output_fun =
     io_bind (io_lift (ignore_by_output_fun (stdout out))) (\<lambda>r.
     let bug = strip (or_empty r) in
     if bug \<noteq> []
     then io_bind (io_print (FAILURE_HEADER_TEMPLATE [] [] bug)) (\<lambda>_. io_return True)
     else io_return False)"

section \<open>\<^verbatim>\<open>main\<close>\<close>

text \<open>\<^verbatim>\<open>CONFIGS[name]\<close>.\<close>

definition config_flags_of :: "string \<Rightarrow> exn + string list" where
  "config_flags_of name =
     (case map_of CONFIGS name of
        None \<Rightarrow> Inl (Exception (apostrophe @ name @ apostrophe))
      | Some fl \<Rightarrow> Inr fl)"

text \<open>The local function \<^verbatim>\<open>run_d8\<close>; \<^verbatim>\<open>options\<close> is the variable it closes over.\<close>

definition run_d8 :: "'w env \<Rightarrow> options \<Rightarrow> string \<Rightarrow> string list \<Rightarrow> ('w, Output) io" where
  "run_d8 env opts d8 config_flags =
     (let args = [d8] @ config_flags @ PREAMBLE env @ [testcase opts];
          args = (if endswith d8 ''.py'' then [sys_executable env] @ args else args)
      in io_execute env args (dirname (testcase opts)) TIMEOUT)"

text \<open>\<^verbatim>\<open>metadata['sources']\<close>.\<close>

definition getitem_sources :: "json \<Rightarrow> exn + json" where
  "getitem_sources metadata =
     (case metadata of
        JObject kvs \<Rightarrow>
          (case map_of kvs ''sources'' of
             None \<Rightarrow> Inl (Exception (apostrophe @ ''sources'' @ apostrophe))
           | Some v \<Rightarrow> Inr v)
      | JArray _ \<Rightarrow> Inl (Exception ''list indices must be integers, not str'')
      | JString _ \<Rightarrow> Inl (Exception ''string indices must be integers'')
      | JNull \<Rightarrow> Inl (Exception (apostrophe @ ''NoneType'' @ apostrophe @
                   '' object has no attribute '' @ apostrophe @ ''__getitem__'' @ apostrophe))
      | JBool _ \<Rightarrow> Inl (Exception (apostrophe @ ''bool'' @ apostrophe @
                   '' object has no attribute '' @ apostrophe @ ''__getitem__'' @ apostrophe))
      | JInt _ \<Rightarrow> Inl (Exception (apostrophe @ ''int'' @ apostrophe @
                   '' object has no attribute '' @ apostrophe @ ''__getitem__'' @ apostrophe))
      | JFloat _ \<Rightarrow> Inl (Exception (apostrophe @ ''float'' @ apostrophe @
                   '' object has no attribute '' @ apostrophe @ ''__getitem__'' @ apostrophe)))"

text \<open>\<^verbatim>\<open>hsh = lambda x: hashlib.sha1(x).hexdigest()[:8]\<close>.\<close>

definition hsh :: "'w env \<Rightarrow> json \<Rightarrow> exn + string" where
  "hsh env x =
     (case x of
        JString s \<Rightarrow>
          (case sha1_hexdigest env s of Inl e \<Rightarrow> Inl e | Inr h \<Rightarrow> Inr (take 8 h))
      | JNull \<Rightarrow> Inl (Exception ''must be string or buffer, not None'')
      | JBool _ \<Rightarrow> Inl (Exception ''must be string or buffer, not bool'')
      | JInt _ \<Rightarrow> Inl (Exception ''must be string or buffer, not int'')
      | JFloat _ \<Rightarrow> Inl (Exception ''must be string or buffer, not float'')
      | JArray _ \<Rightarrow> Inl (Exception ''must be string or buffer, not list'')
      | JObject _ \<Rightarrow> Inl (Exception ''must be string or buffer, not dict''))"

text \<open>The elements \<^verbatim>\<open>map\<close> iterates over: of a list its items, of a string its
  characters, of a dictionary its keys.\<close>

definition iterate :: "json \<Rightarrow> exn + json list" where
  "iterate x =
     (case x of
        JArray xs \<Rightarrow> Inr xs
      | JString s \<Rightarrow> Inr (map (\<lambda>c. JString [c]) s)
      | JObject kvs \<Rightarrow> Inr (map (\<lambda>kv. JString (fst kv)) kvs)
      | _ \<Rightarrow> Inl (Exception ''argument 2 to map() must support iteration''))"

text \<open>\<^verbatim>\<open>map(f, xs)\<close> of Python 2: a list, built front to back, given up at the
  first exception.\<close>

fun map_py :: "('a \<Rightarrow> exn + 'b) \<Rightarrow> 'a list \<Rightarrow> exn + 'b list" where
  "map_py f [] = Inr []"
| "map_py f (x # xs) =
     (case f x of
        Inl e \<Rightarrow> Inl e
      | Inr y \<Rightarrow> (case map_py f xs of Inl e \<Rightarrow> Inl e | Inr ys \<Rightarrow> Inr (y # ys)))"

text \<open>\<^verbatim>\<open>','.join(map(hsh, metadata['sources']))\<close>.\<close>

definition sources_fingerprint :: "'w env \<Rightarrow> json \<Rightarrow> exn + string" where
  "sources_fingerprint env metadata =
     (case getitem_sources metadata of
        Inl e \<Rightarrow> Inl e
      | Inr srcs \<Rightarrow>
          (case iterate srcs of
             Inl e \<Rightarrow> Inl e
           | Inr xs \<Rightarrow>
               (case map_py (hsh env) xs of Inl e \<Rightarrow> Inl e | Inr hs \<Rightarrow> Inr (join '','' hs))))"

definition main :: "'w env \<Rightarrow> exn + namespace \<Rightarrow> ('w, int) io" where
  "main env cmdline =
     io_bind (parse_args env cmdline) (\<lambda>opts.
     io_bind (io_lift (get_suppression env (first_arch opts) (first_config opts)
                         (second_arch opts) (second_config opts))) (\<lambda>suppress.
     io_bind (test_pattern_bailout env (testcase opts) (ignore suppress)) (\<lambda>b.
     if b then io_return RETURN_FAIL else
     io_bind (io_open env (meta_data_path opts)) (\<lambda>text.
     io_bind (io_lift (json_load env text)) (\<lambda>metadata.
     let common_flags = FLAGS @ [''--random-seed'', str (random_seed opts)] in
     io_bind (io_lift (config_flags_of (first_config opts))) (\<lambda>fl1.
     let first_flags = common_flags @ fl1 in
     io_bind (io_lift (config_flags_of (second_config opts))) (\<lambda>fl2.
     let second_flags = common_flags @ fl2 in
     io_bind (run_d8 env opts (first_d8 opts) first_flags) (\<lambda>first_output.
     io_bind (pass_bailout first_output 1) (\<lambda>b.
     if b then io_return RETURN_PASS else
     io_bind (fail_bailout first_output (ignore_by_output1 suppress)) (\<lambda>b.
     if b then io_return RETURN_FAIL else
     io_bind (case second_d8 opts of
                None \<Rightarrow> io_raise (Exception (apostrophe @ ''NoneType'' @ apostrophe @
                          '' object has no attribute '' @ apostrophe @ ''endswith'' @
                          apostrophe))
              | Some d8 \<Rightarrow> run_d8 env opts d8 second_flags) (\<lambda>second_output.
     io_bind (pass_bailout second_output 2) (\<lambda>b.
     if b then io_return RETURN_PASS else
     io_bind (fail_bailout second_output (ignore_by_output2 suppress)) (\<lambda>b.
     if b then io_return RETURN_FAIL else
     io_bind (io_lift (diff suppress (stdout first_output) (stdout second_output))) (\<lambda>dif.
     if dif \<noteq> None \<and> dif \<noteq> Some [] then
       let label1 = first_arch opts @ '','' @ first_config opts;
           label2 = second_arch opts @ '','' @ second_config opts in
       io_bind (io_lift (sources_fingerprint env metadata)) (\<lambda>fp.
       io_bind (io_print (FAILURE_TEMPLATE
                  \<lparr>configs = label1 @ '':'' @ label2,
                   sources = fp,
                   suppression_label = [],
                   first_config_label = label1,
                   second_config_label = label2,
                   first_config_flags = join '' '' first_flags,
                   second_config_flags = join '' '' second_flags,
                   first_config_output = stdout first_output,
                   second_config_output = stdout second_output,
                   difference = the dif\<rparr>)) (\<lambda>_.
       io_return RETURN_FAIL))
     else
       io_bind (io_print ''# V8 correctness - pass'') (\<lambda>_.
       io_return RETURN_PASS)))))))))))))))"

section \<open>The script's top level\<close>

text \<open>
  The \<^verbatim>\<open>__main__\<close> block: the value is the status \<^verbatim>\<open>sys.exit\<close> is called with, or
  the exception that neither handler catches.
\<close>

definition script :: "'w env \<Rightarrow> exn + namespace \<Rightarrow> ('w, int) io" where
  "script env cmdline w =
     (case main env cmdline w of
        (Inr result, w1, t) \<Rightarrow> (Inr result, w1, t)
      | (Inl SystemExit, w1, t) \<Rightarrow>
          (Inr RETURN_FAIL, w1, t @ [Print (FAILURE_HEADER_TEMPLATE [] [] ''wrong_usage'')])
      | (Inl (Exception msg), w1, t) \<Rightarrow>
          (Inr RETURN_FAIL, w1,
           t @ [Print (FAILURE_HEADER_TEMPLATE [] [] ''internal_error''),
                Print (''# Internal error: '' @ msg),
                PrintExc (Exception msg)])
      | (Inl KeyboardInterrupt, w1, t) \<Rightarrow> (Inl KeyboardInterrupt, w1, t))"

section \<open>Observing an execution\<close>

text \<open>The process launches among the events of an execution, in order.\<close>

fun is_exec :: "event \<Rightarrow> bool" where
  "is_exec (Exec _ _ _ _) = True"
| "is_exec _ = False"

definition launches :: "event list \<Rightarrow> event list" where
  "launches t = filter is_exec t"

text \<open>A suppression method matches when its answer, stripped, is a non-empty string.\<close>

definition no_match :: "exn + string option \<Rightarrow> bool" where
  "no_match r = (case r of Inl _ \<Rightarrow> False | Inr x \<Rightarrow> strip (or_empty x) = [])"

section \<open>The body of \<^verbatim>\<open>main\<close>, cut into stages\<close>

text \<open>
  The same statements as in \<^verbatim>\<open>main\<close>, named so that each step of the pipeline can be
  reasoned about on its own: the comparison (from \<^verbatim>\<open>suppress.diff\<close> on), the second run
  with its bailouts, the first run with its bailouts, the loading of the metadata and the
  flags, and the part after \<^verbatim>\<open>parse_args\<close>.
\<close>

definition compare_outputs ::
  "'w env \<Rightarrow> options \<Rightarrow> suppression \<Rightarrow> json \<Rightarrow> string list \<Rightarrow> string list \<Rightarrow>
   Output \<Rightarrow> Output \<Rightarrow> ('w, int) io" where
  "compare_outputs env opts suppress metadata first_flags second_flags
     first_output second_output =
     io_bind (io_lift (diff suppress (stdout first_output) (stdout second_output))) (\<lambda>dif.
     if dif \<noteq> None \<and> dif \<noteq> Some [] then
       let label1 = first_arch opts @ '','' @ first_config opts;
           label2 = second_arch opts @ '','' @ second_config opts in
       io_bind (io_lift (sources_fingerprint env metadata)) (\<lambda>fp.
       io_bind (io_print (FAILURE_TEMPLATE
                  \<lparr>configs = label1 @ '':'' @ label2,
                   sources = fp,
                   suppression_label = [],
                   first_config_label = label1,
                   second_config_label = label2,
                   first_config_flags = join '' '' first_flags,
                   second_config_flags = join '' '' second_flags,
                   first_config_output = stdout first_output,
                   second_config_output = stdout second_output,
                   difference = the dif\<rparr>)) (\<lambda>_.
       io_return RETURN_FAIL))
     else
       io_bind (io_print ''# V8 correctness - pass'') (\<lambda>_.
       io_return RETURN_PASS))"

definition second_stage ::
  "'w env \<Rightarrow> options \<Rightarrow> suppression \<Rightarrow> json \<Rightarrow> string list \<Rightarrow> string list \<Rightarrow>
   Output \<Rightarrow> ('w, int) io" where
  "second_stage env opts suppress metadata first_flags second_flags first_output =
     io_bind (case second_d8 opts of
                None \<Rightarrow> io_raise (Exception (apostrophe @ ''NoneType'' @ apostrophe @
                          '' object has no attribute '' @ apostrophe @ ''endswith'' @
                          apostrophe))
              | Some d8 \<Rightarrow> run_d8 env opts d8 second_flags) (\<lambda>second_output.
     io_bind (pass_bailout second_output 2) (\<lambda>b.
     if b then io_return RETURN_PASS else
     io_bind (fail_bailout second_output (ignore_by_output2 suppress)) (\<lambda>b.
     if b then io_return RETURN_FAIL else
     compare_outputs env opts suppress metadata first_flags second_flags
       first_output second_output)))"

definition first_stage ::
  "'w env \<Rightarrow> options \<Rightarrow> suppression \<Rightarrow> json \<Rightarrow> string list \<Rightarrow> string list \<Rightarrow>
   ('w, int) io" where
  "first_stage env opts suppress metadata first_flags second_flags =
     io_bind (run_d8 env opts (first_d8 opts) first_flags) (\<lambda>first_output.
     io_bind (pass_bailout first_output 1) (\<lambda>b.
     if b then io_return RETURN_PASS else
     io_bind (fail_bailout first_output (ignore_by_output1 suppress)) (\<lambda>b.
     if b then io_return RETURN_FAIL else
     second_stage env opts suppress metadata first_flags second_flags first_output)))"

definition load_stage :: "'w env \<Rightarrow> options \<Rightarrow> suppression \<Rightarrow> ('w, int) io" where
  "load_stage env opts suppress =
     io_bind (io_open env (meta_data_path opts)) (\<lambda>text.
     io_bind (io_lift (json_load env text)) (\<lambda>metadata.
     io_bind (io_lift (config_flags_of (first_config opts))) (\<lambda>fl1.
     io_bind (io_lift (config_flags_of (second_config opts))) (\<lambda>fl2.
     first_stage env opts suppress metadata
       ((FLAGS @ [''--random-seed'', str (random_seed opts)]) @ fl1)
       ((FLAGS @ [''--random-seed'', str (random_seed opts)]) @ fl2)))))"

definition pipeline :: "'w env \<Rightarrow> options \<Rightarrow> ('w, int) io" where
  "pipeline env opts =
     io_bind (io_lift (get_suppression env (first_arch opts) (first_config opts)
                         (second_arch opts) (second_config opts))) (\<lambda>suppress.
     io_bind (test_pattern_bailout env (testcase opts) (ignore suppress)) (\<lambda>b.
     if b then io_return RETURN_FAIL else load_stage env opts suppress))"

text \<open>A computation that launches nothing and leaves the world as it is.\<close>

definition quiet :: "('w, 'a) io \<Rightarrow> bool" where
  "quiet m = (\<forall>w r w' t. m w = (r, w', t) \<longrightarrow> launches t = [] \<and> w' = w)"

text \<open>The argument list \<^verbatim>\<open>run_d8\<close> passes to \<^verbatim>\<open>Execute\<close>.\<close>

definition command_line :: "'w env \<Rightarrow> options \<Rightarrow> string \<Rightarrow> string list \<Rightarrow> string list" where
  "command_line env opts d8 config_flags =
     (if endswith d8 ''.py'' then [sys_executable env] else []) @
     [d8] @ config_flags @ PREAMBLE env @ [testcase opts]"

text \<open>The answer of \<^verbatim>\<open>suppress.diff\<close> is falsy: \<^verbatim>\<open>None\<close> or the empty string.\<close>

definition no_difference :: "exn + string option \<Rightarrow> bool" where
  "no_difference r = (r = Inr None \<or> r = Inr (Some []))"

text \<open>\<^verbatim>\<open>common_flags\<close> of \<^verbatim>\<open>main\<close>.\<close>

definition common_flags :: "options \<Rightarrow> string list" where
  "common_flags opts = FLAGS @ [''--random-seed'', str (random_seed opts)]"

section \<open>A sample installation\<close>

text \<open>
  A file system with one test case \<^verbatim>\<open>/t/fuzz-1.js\<close>, its resources file, its metadata
  and an executable \<^verbatim>\<open>/b/d8\<close>; the suppression object, the parsed metadata and the
  behaviour of the process runner are left open. The world counts the processes run.
\<close>

definition demo_args :: namespace where
  "demo_args =
     \<lparr>random_seed = 12345, first_arch = ''x64'', second_arch = ''x64'',
      first_config = ''default'', second_config = ''fullcode'',
      first_d8 = ''d8'', second_d8 = None, testcase = ''/t/fuzz-1.js''\<rparr>"

definition demo_resources :: string where
  "demo_resources = ''meta.json'' @ nl"

definition demo_open :: "string \<Rightarrow> exn + string" where
  "demo_open p =
     (if p = ''/t/fuzz-1.js'' then Inr ''print(42)''
      else if p = ''/t/resources-1.js'' then Inr demo_resources
      else if p = ''/t/meta.json'' then Inr ''{}''
      else Inl (Exception ''No such file or directory''))"

definition demo_exists :: "string \<Rightarrow> bool" where
  "demo_exists p = (prefix ''/b/'' p \<or> (case demo_open p of Inl _ \<Rightarrow> False | Inr _ \<Rightarrow> True))"

definition demo_metadata :: json where
  "demo_metadata = JObject [(''sources'', JArray [JString ''f60'', JString ''a1b''])]"

definition demo_env ::
  "suppression \<Rightarrow> exn + json \<Rightarrow> (string list \<Rightarrow> nat \<Rightarrow> exn + Output) \<Rightarrow> nat env" where
  "demo_env sp md run =
     \<lparr>BASE_PATH = ''/f'',
      sys_executable = ''/usr/bin/python'',
      path_exists = (\<lambda>p w. demo_exists p),
      path_isfile = (\<lambda>p w. demo_exists p),
      abspath = (\<lambda>p. if prefix ''/'' p then p else ''/b/'' @ p),
      open_read = (\<lambda>p w. demo_open p),
      json_load = (\<lambda>s. md),
      sha1_hexdigest = (\<lambda>s. Inr (s @ ''0123456789abcdef'')),
      get_suppression = (\<lambda>a1 c1 a2 c2. Inr sp),
      Execute = (\<lambda>args cwd timeout w. (run args w, Suc w))\<rparr>"

definition demo_suppression ::
  "string option \<Rightarrow> string option \<Rightarrow> string option \<Rightarrow> string option \<Rightarrow> suppression" where
  "demo_suppression i o1 o2 d =
     \<lparr>ignore = (\<lambda>s. Inr i), ignore_by_output1 = (\<lambda>s. Inr o1),
      ignore_by_output2 = (\<lambda>s. Inr o2), diff = (\<lambda>a b. Inr d)\<rparr>"

definition demo_options :: options where
  "demo_options =
     \<lparr>random_seed = 12345, first_arch = ''x64'', second_arch = ''x64'',
      first_config = ''default'', second_config = ''fullcode'',
      first_d8 = ''/b/d8'', second_d8 = Some ''/b/d8'', testcase = ''/t/fuzz-1.js'',
      meta_data_path = ''/t/meta.json''\<rparr>"

definition timed_out :: Output where
  "timed_out = \<lparr>HasTimedOut = True, HasCrashed = False, stdout = []\<rparr>"

definition crashed :: Output where
  "crashed = \<lparr>HasTimedOut = False, HasCrashed = True, stdout = []\<rparr>"

definition printed :: "string \<Rightarrow> Output" where
  "printed s = \<lparr>HasTimedOut = False, HasCrashed = False, stdout = s\<rparr>"

definition demo_command :: "string list \<Rightarrow> string list" where
  "demo_command config =
     [''/b/d8''] @ FLAGS @ [''--random-seed'', ''12345''] @ config @
     [''/f/v8_mock.js'', ''/f/v8_suppressions.js'', ''/t/fuzz-1.js'']"

definition timeout_env :: "nat env" where
  "timeout_env = demo_env (demo_suppression None (Some ''crbug.com/1'') None None)
                   (Inr demo_metadata) (\<lambda>args w. Inr timed_out)"

definition crash_env :: "nat env" where
  "crash_env = demo_env (demo_suppression None None (Some ''crbug.com/2'') None)
                 (Inr demo_metadata)
                 (\<lambda>args w. if w = 0 then Inr (printed ''42'') else Inr crashed)"

definition timeout_trace :: "event list" where
  "timeout_trace =
     [Open ''/t/resources-1.js'', Open ''/t/fuzz-1.js'', Open ''/t/meta.json'',
      Exec (demo_command []) ''/t'' 3 (Inr timed_out),
      Print ''# V8 correctness - T-I-M-E-O-U-T 1'']"

definition crash_trace :: "event list" where
  "crash_trace =
     [Open ''/t/resources-1.js'', Open ''/t/fuzz-1.js'', Open ''/t/meta.json'',
      Exec (demo_command []) ''/t'' 3 (Inr (printed ''42'')),
      Exec (demo_command [''--nocrankshaft'', ''--turbo-filter=~'']) ''/t'' 3 (Inr crashed),
      Print ''# V8 correctness - C-R-A-S-H 2'']"

text \<open>What a computation guarantees of the value it returns.\<close>

definition ensures :: "('w, 'a) io \<Rightarrow> ('a \<Rightarrow> bool) \<Rightarrow> bool" where
  "ensures m P = (\<forall>w x w' t. m w = (Inr x, w', t) \<longrightarrow> P x)"

definition suppressed_env :: "nat env" where
  "suppressed_env = demo_env (demo_suppression None None (Some ''crbug.com/3'') None)
                      (Inr demo_metadata) (\<lambda>args w. Inr (printed ''42''))"

definition suppressed_trace :: "event list" where
  "suppressed_trace =
     [Open ''/t/resources-1.js'', Open ''/t/fuzz-1.js'', Open ''/t/meta.json'',
      Exec (demo_command []) ''/t'' 3 (Inr (printed ''42'')),
      Exec (demo_command [''--nocrankshaft'', ''--turbo-filter=~'']) ''/t'' 3
        (Inr (printed ''42'')),
      Print (FAILURE_HEADER_TEMPLATE [] [] ''crbug.com/3'')]"

definition same_env :: "nat env" where
  "same_env = demo_env (demo_suppression None None None None)
                (Inr demo_metadata) (\<lambda>args w. Inr (printed ''42''))"

definition same_trace :: "event list" where
  "same_trace =
     [Open ''/t/resources-1.js'', Open ''/t/fuzz-1.js'', Open ''/t/meta.json'',
      Exec (demo_command []) ''/t'' 3 (Inr (printed ''42'')),
      Exec (demo_command [''--nocrankshaft'', ''--turbo-filter=~'']) ''/t'' 3
        (Inr (printed ''42'')),
      Print ''# V8 correctness - pass'']"

definition prerun_suppression :: suppression where
  "prerun_suppression = demo_suppression (Some ''crbug.com/4'') None None None"

definition prerun_env :: "nat env" where
  "prerun_env = demo_env prerun_suppression
                  (Inl (Exception ''No JSON object could be decoded''))
                  (\<lambda>args w. Inr (printed ''42''))"

definition same_config_args :: namespace where
  "same_config_args = demo_args\<lparr>second_config := ''default''\<rparr>"

text \<open>
  The rest of \<^verbatim>\<open>s\<close> after the first occurrence of \<^verbatim>\<open>p\<close> in it, and whether the pieces
  \<^verbatim>\<open>ps\<close> occur in \<^verbatim>\<open>s\<close> one after the other, in this order.
\<close>

fun after_first :: "string \<Rightarrow> string \<Rightarrow> string option" where
  "after_first p [] = (if p = [] then Some [] else None)"
| "after_first p (c # s) =
     (if prefix p (c # s) then Some (drop (length p) (c # s)) else after_first p s)"

fun in_order :: "string list \<Rightarrow> string \<Rightarrow> bool" where
  "in_order [] s = True"
| "in_order (p # ps) s = (case after_first p s of None \<Rightarrow> False | Some r \<Rightarrow> in_order ps r)"

text \<open>The parts of the full report.\<close>

definition report_header :: "report_fields \<Rightarrow> string" where
  "report_header d = FAILURE_HEADER_TEMPLATE (configs d) (sources d) (suppression_label d)"

definition check_marker :: string where
  "check_marker = ''# CHECK'' @ nl"

definition flag_dump :: "string \<Rightarrow> string \<Rightarrow> string" where
  "flag_dump label flags = ''# Flags of '' @ label @ '':'' @ nl @ flags @ nl"

definition diff_text :: "report_fields \<Rightarrow> string" where
  "diff_text d = ''# Difference:'' @ nl @ difference d @ nl"

definition output_block :: "string \<Rightarrow> string \<Rightarrow> string" where
  "output_block label out =
     ''### Start of configuration '' @ label @ '':'' @ nl @ out @ nl @
     ''### End of configuration '' @ label @ nl"

text \<open>The order of the parts as the specification lists them, and as the template has
  them.\<close>

definition spec_report_order :: "report_fields \<Rightarrow> string list" where
  "spec_report_order d =
     [report_header d,
      flag_dump (first_config_label d) (first_config_flags d),
      flag_dump (second_config_label d) (second_config_flags d),
      check_marker,
      diff_text d,
      output_block (first_config_label d) (first_config_output d),
      output_block (second_config_label d) (second_config_output d)]"

definition report_order :: "report_fields \<Rightarrow> string list" where
  "report_order d =
     [report_header d,
      check_marker,
      flag_dump (first_config_label d) (first_config_flags d),
      flag_dump (second_config_label d) (second_config_flags d),
      diff_text d,
      output_block (first_config_label d) (first_config_output d),
      output_block (second_config_label d) (second_config_output d)]"

text \<open>A run of the sample installation in which the two outputs differ.\<close>

definition diff_env :: "nat env" where
  "diff_env = demo_env (demo_suppression None None None (Some ''line 1 differs''))
                (Inr demo_metadata)
                (\<lambda>args w. if w = 0 then Inr (printed ''[A]'') else Inr (printed ''[B]''))"

definition diff_report :: report_fields where
  "diff_report =
     \<lparr>configs = ''x64,default:x64,fullcode'',
      sources = ''f6001234,a1b01234'',
      suppression_label = [],
      first_config_label = ''x64,default'',
      second_config_label = ''x64,fullcode'',
      first_config_flags = join '' '' (FLAGS @ [''--random-seed'', ''12345'']),
      second_config_flags =
        join '' '' (FLAGS @ [''--random-seed'', ''12345'', ''--nocrankshaft'',
                             ''--turbo-filter=~'']),
      first_config_output = ''[A]'',
      second_config_output = ''[B]'',
      difference = ''line 1 differs''\<rparr>"

definition diff_trace :: "event list" where
  "diff_trace =
     [Open ''/t/resources-1.js'', Open ''/t/fuzz-1.js'', Open ''/t/meta.json'',
      Exec (demo_command []) ''/t'' 3 (Inr (printed ''[A]'')),
      Exec (demo_command [''--nocrankshaft'', ''--turbo-filter=~'']) ''/t'' 3
        (Inr (printed ''[B]'')),
      Print (FAILURE_TEMPLATE diff_report)]"

text \<open>What a computation guarantees of the value it returns and of the events it causes.\<close>

definition yields :: "('w, 'a) io \<Rightarrow> ('a \<Rightarrow> event list \<Rightarrow> bool) \<Rightarrow> bool" where
  "yields m Q = (\<forall>w x w' t. m w = (Inr x, w', t) \<longrightarrow> Q x t)"

text \<open>A computation that causes no event.\<close>

definition silent :: "('w, 'a) io \<Rightarrow> bool" where
  "silent m = (\<forall>w r w' t. m w = (r, w', t) \<longrightarrow> t = [])"

text \<open>The path of the resources file that \<^verbatim>\<open>parse_args\<close> derives from the test case.\<close>

definition resources_path :: "namespace \<Rightarrow> string" where
  "resources_path a =
     path_join (dirname (testcase a))
       (''resources'' @ drop (length ''fuzz'') (basename (testcase a)))"

text \<open>
  The lines the launcher prints last when it passes, and the two lines every failure
  report starts with.
\<close>

definition pass_message :: "string \<Rightarrow> bool" where
  "pass_message s =
     (s \<in> set [''# V8 correctness - pass'',
                ''# V8 correctness - T-I-M-E-O-U-T 1'', ''# V8 correctness - T-I-M-E-O-U-T 2'',
                ''# V8 correctness - C-R-A-S-H 1'', ''# V8 correctness - C-R-A-S-H 2''])"

definition fail_message :: "string \<Rightarrow> bool" where
  "fail_message s = prefix (''#'' @ nl @ ''# V8 correctness failure'' @ nl) s"

text \<open>
  The status \<^verbatim>\<open>x\<close> agrees with what was printed last: 0 with a pass line, 2 with a
  failure report.
\<close>

definition reported :: "int \<Rightarrow> event list \<Rightarrow> bool" where
  "reported x t =
     (case rev t of
        Print s # _ \<Rightarrow> (x = 0 \<and> pass_message s) \<or> (x = 2 \<and> fail_message s)
      | _ \<Rightarrow> False)"

text \<open>The header-only form of the report, line by line.\<close>

definition header_only_report :: "string \<Rightarrow> string" where
  "header_only_report label =
     ''#'' @ nl @
     ''# V8 correctness failure'' @ nl @
     ''# V8 correctness configs: '' @ nl @
     ''# V8 correctness sources: '' @ nl @
     ''# V8 correctness suppression: '' @ label @ nl"

text \<open>
  The executables after \<^verbatim>\<open>parse_args\<close>: the second defaults to the first, and both
  are made absolute.
\<close>

definition first_executable :: "'w env \<Rightarrow> namespace \<Rightarrow> string" where
  "first_executable env a = abspath env (first_d8 a)"

definition second_executable :: "'w env \<Rightarrow> namespace \<Rightarrow> string" where
  "second_executable env a =
     abspath env (case second_d8 a of
                    None \<Rightarrow> first_d8 a
                  | Some s \<Rightarrow> if s = [] then first_d8 a else s)"

text \<open>
  The command line as the specification composes it, and as \<^verbatim>\<open>run_d8\<close> does: an
  executable whose name ends in \<^verbatim>\<open>.py\<close> is run by the Python interpreter.
\<close>

definition spec_command :: "'w env \<Rightarrow> namespace \<Rightarrow> string \<Rightarrow> string list \<Rightarrow> string list" where
  "spec_command env a d8 registry_flags =
     [d8] @ FLAGS @ [''--random-seed'', str (random_seed a)] @ registry_flags @
     PREAMBLE env @ [testcase a]"

definition wrapped_command :: "'w env \<Rightarrow> namespace \<Rightarrow> string \<Rightarrow> string list \<Rightarrow> string list" where
  "wrapped_command env a d8 registry_flags =
     (if endswith d8 ''.py'' then [sys_executable env] else []) @
     spec_command env a d8 registry_flags"

text \<open>The sample installation with a first executable that is a Python script.\<close>

definition py_args :: namespace where
  "py_args = demo_args\<lparr>first_d8 := ''d8.py''\<rparr>"

definition py_options :: options where
  "py_options =
     \<lparr>random_seed = 12345, first_arch = ''x64'', second_arch = ''x64'',
      first_config = ''default'', second_config = ''fullcode'',
      first_d8 = ''/b/d8.py'', second_d8 = Some ''/b/d8.py'', testcase = ''/t/fuzz-1.js'',
      meta_data_path = ''/t/meta.json''\<rparr>"

definition py_command :: "string list" where
  "py_command =
     [''/usr/bin/python'', ''/b/d8.py''] @ FLAGS @ [''--random-seed'', ''12345''] @
     [''/f/v8_mock.js'', ''/f/v8_suppressions.js'', ''/t/fuzz-1.js'']"

definition py_trace :: "event list" where
  "py_trace =
     [Open ''/t/resources-1.js'', Open ''/t/fuzz-1.js'', Open ''/t/meta.json'',
      Exec py_command ''/t'' 3 (Inr timed_out),
      Print ''# V8 correctness - T-I-M-E-O-U-T 1'']"


section \<open>Lemmas on the stages\<close>

lemma main_stages: "main env cmdline = io_bind (parse_args env cmdline) (pipeline env)"
  unfolding main_def pipeline_def load_stage_def first_stage_def second_stage_def
    compare_outputs_def Let_def by (rule refl)

lemma launches_append [simp]: "launches (a @ b) = launches a @ launches b"
  by (simp add: launches_def)

lemma launches_Nil [simp]: "launches [] = []"
  by (simp add: launches_def)

lemma launches_Print [simp]: "launches (Print s # t) = launches t"
  by (simp add: launches_def)

lemma launches_Open [simp]: "launches (Open s # t) = launches t"
  by (simp add: launches_def)

lemma launches_Exec [simp]: "launches (Exec a c n r # t) = Exec a c n r # launches t"
  by (simp add: launches_def)

lemma io_bind_cases:
  assumes "io_bind m f w = (r, w', t)"
  obtains (raised) e where "m w = (Inl e, w', t)" and "r = Inl e"
    | (returned) x w1 t1 t2 where "m w = (Inr x, w1, t1)" and "f x w1 = (r, w', t2)"
        and "t = t1 @ t2"
  using assms by (auto simp: io_bind_def split: prod.splits sum.splits)

lemma quietD: "quiet m \<Longrightarrow> m w = (r, w', t) \<Longrightarrow> launches t = [] \<and> w' = w"
  by (simp add: quiet_def)

lemma quiet_return [simp]: "quiet (io_return x)"
  by (simp add: quiet_def io_return_def)

lemma quiet_raise [simp]: "quiet (io_raise e)"
  by (simp add: quiet_def io_raise_def)

lemma quiet_lift [simp]: "quiet (io_lift r)"
  by (simp add: quiet_def io_lift_def)

lemma quiet_print [simp]: "quiet (io_print s)"
  by (simp add: quiet_def io_print_def)

lemma quiet_assert [simp]: "quiet (py_assert c m)"
  by (simp add: py_assert_def)

lemma quiet_open [simp]: "quiet (io_open env p)"
  by (simp add: quiet_def io_open_def)

lemma quiet_exists [simp]: "quiet (io_exists env p)"
  by (simp add: quiet_def io_exists_def)

lemma quiet_isfile [simp]: "quiet (io_isfile env p)"
  by (simp add: quiet_def io_isfile_def)

lemma quiet_bind [intro!]:
  assumes "quiet m" and "\<And>x. quiet (f x)"
  shows "quiet (io_bind m f)"
  unfolding quiet_def
proof (intro allI impI)
  fix w r w' t
  assume "io_bind m f w = (r, w', t)"
  then show "launches t = [] \<and> w' = w"
  proof (cases rule: io_bind_cases)
    case (raised e)
    with assms(1) show ?thesis by (auto dest: quietD)
  next
    case (returned x w1 t1 t2)
    from quietD [OF assms(1) returned(1)] quietD [OF assms(2) returned(2)] returned(3)
    show ?thesis by simp
  qed
qed

lemma quiet_if [intro!]: "quiet a \<Longrightarrow> quiet b \<Longrightarrow> quiet (if c then a else b)"
  by simp

lemma quiet_parse_args: "quiet (parse_args env cmdline)"
  unfolding parse_args_def Let_def by (intro quiet_bind quiet_if) simp_all

lemma quiet_test_pattern_bailout: "quiet (test_pattern_bailout env tc f)"
  unfolding test_pattern_bailout_def Let_def by (intro quiet_bind quiet_if) simp_all

lemma quiet_fail_bailout: "quiet (fail_bailout out f)"
  unfolding fail_bailout_def Let_def by (intro quiet_bind quiet_if) simp_all

lemma quiet_pass_bailout: "quiet (pass_bailout out n)"
  unfolding pass_bailout_def by (intro quiet_bind quiet_if) simp_all

lemma quiet_compare_outputs:
  "quiet (compare_outputs env opts suppress metadata f1 f2 o1 o2)"
  unfolding compare_outputs_def Let_def by (intro quiet_bind quiet_if) simp_all

lemma run_d8_inv:
  assumes "run_d8 env opts d8 fl w = (r, w', t)"
  shows "t = [Exec (command_line env opts d8 fl) (dirname (testcase opts)) TIMEOUT r]"
  using assms
  by (auto simp: run_d8_def io_execute_def command_line_def Let_def split: prod.splits)

lemma pass_bailout_inv:
  assumes "pass_bailout out n w = (r, w', t)"
  shows "r = Inr (HasTimedOut out \<or> HasCrashed out) \<and> w' = w \<and> launches t = []"
  using assms
  by (auto simp: pass_bailout_def io_bind_def io_print_def io_return_def split: if_splits)

lemma fail_bailout_inv:
  assumes "fail_bailout out f w = (r, w', t)"
  shows "w' = w \<and> launches t = [] \<and>
         (case f (stdout out) of
            Inl e \<Rightarrow> r = Inl e
          | Inr x \<Rightarrow> r = Inr (strip (or_empty x) \<noteq> []))"
  using assms
  by (auto simp: fail_bailout_def io_bind_def io_print_def io_return_def io_lift_def
      Let_def split: if_splits sum.splits)

lemma compare_outputs_inv:
  assumes "compare_outputs env opts sp md f1 f2 o1 o2 w = (r, w', t)"
  shows "w' = w \<and> launches t = [] \<and>
         (\<forall>x. r = Inr x \<longrightarrow> x = RETURN_PASS \<or> x = RETURN_FAIL) \<and>
         (no_difference (diff sp (stdout o1) (stdout o2)) \<longrightarrow> r = Inr RETURN_PASS)"
  using assms
  by (auto simp: compare_outputs_def io_bind_def io_print_def io_return_def io_lift_def
      no_difference_def Let_def split: if_splits sum.splits)

lemma second_stage_cases [consumes 1,
    case_names no_d8 run_raised bailed check_raised suppressed compared]:
  assumes "second_stage env opts sp md f1 f2 o1 w = (r, w', t)"
  obtains
    (no_d8) e where "second_d8 opts = None" and "launches t = []" and "r = Inl e"
  | (run_raised) d8 e where "second_d8 opts = Some d8"
      and "launches t = [Exec (command_line env opts d8 f2) (dirname (testcase opts))
                           TIMEOUT (Inl e)]"
      and "r = Inl e"
  | (bailed) d8 o2 where "second_d8 opts = Some d8"
      and "launches t = [Exec (command_line env opts d8 f2) (dirname (testcase opts))
                           TIMEOUT (Inr o2)]"
      and "HasTimedOut o2 \<or> HasCrashed o2" and "r = Inr RETURN_PASS"
  | (check_raised) d8 o2 e where "second_d8 opts = Some d8"
      and "launches t = [Exec (command_line env opts d8 f2) (dirname (testcase opts))
                           TIMEOUT (Inr o2)]"
      and "\<not> HasTimedOut o2" and "\<not> HasCrashed o2"
      and "ignore_by_output2 sp (stdout o2) = Inl e" and "r = Inl e"
  | (suppressed) d8 o2 x where "second_d8 opts = Some d8"
      and "launches t = [Exec (command_line env opts d8 f2) (dirname (testcase opts))
                           TIMEOUT (Inr o2)]"
      and "\<not> HasTimedOut o2" and "\<not> HasCrashed o2"
      and "ignore_by_output2 sp (stdout o2) = Inr x" and "strip (or_empty x) \<noteq> []"
      and "r = Inr RETURN_FAIL"
  | (compared) d8 o2 x w2 t2 where "second_d8 opts = Some d8"
      and "launches t = [Exec (command_line env opts d8 f2) (dirname (testcase opts))
                           TIMEOUT (Inr o2)]"
      and "\<not> HasTimedOut o2" and "\<not> HasCrashed o2"
      and "ignore_by_output2 sp (stdout o2) = Inr x" and "strip (or_empty x) = []"
      and "compare_outputs env opts sp md f1 f2 o1 o2 w2 = (r, w', t2)"
  using assms unfolding second_stage_def
proof (cases rule: io_bind_cases)
  case (raised e)
  show ?thesis
  proof (cases "second_d8 opts")
    case None
    with raised have "t = []" by (simp add: io_raise_def)
    with None raised(2) show ?thesis by (intro no_d8) simp_all
  next
    case (Some d8)
    with raised(1) have "run_d8 env opts d8 f2 w = (Inl e, w', t)" by simp
    from run_d8_inv [OF this] Some raised(2) show ?thesis by (intro run_raised) simp_all
  qed
next
  case run: (returned o2 w1 t1 t2)
  from run(1) obtain d8 where d8: "second_d8 opts = Some d8"
    and "run_d8 env opts d8 f2 w = (Inr o2, w1, t1)"
    by (cases "second_d8 opts") (simp_all add: io_raise_def)
  from run_d8_inv [OF this(2)]
  have t1: "launches t1 = [Exec (command_line env opts d8 f2) (dirname (testcase opts))
                             TIMEOUT (Inr o2)]"
    by simp
  from run(2) show ?thesis
  proof (cases rule: io_bind_cases)
    case (raised e)
    from pass_bailout_inv [OF raised(1)] show ?thesis by simp
  next
    case pass: (returned b w2 t3 t4)
    from pass_bailout_inv [OF pass(1)]
    have b: "b = (HasTimedOut o2 \<or> HasCrashed o2)" and t3: "launches t3 = []"
      by simp_all
    show ?thesis
    proof (cases b)
      case True
      with pass(2) have "r = Inr RETURN_PASS" and "t4 = []"
        by (simp_all add: io_return_def)
      with d8 t1 t3 b True run(3) pass(3) show ?thesis by (intro bailed) simp_all
    next
      case False
      with b have nb: "\<not> HasTimedOut o2" "\<not> HasCrashed o2" by simp_all
      from False pass(2) have "io_bind (fail_bailout o2 (ignore_by_output2 sp))
          (\<lambda>b. if b then io_return RETURN_FAIL
                else compare_outputs env opts sp md f1 f2 o1 o2) w2 = (r, w', t4)"
        by simp
      then show ?thesis
      proof (cases rule: io_bind_cases)
        case (raised e)
        from fail_bailout_inv [OF raised(1)]
        have "launches t4 = []" and "ignore_by_output2 sp (stdout o2) = Inl e"
          by (simp_all split: sum.splits)
        with d8 t1 t3 nb run(3) pass(3) raised(2) show ?thesis
          by (intro check_raised) simp_all
      next
        case fail: (returned b2 w3 t5 t6)
        from fail_bailout_inv [OF fail(1)] obtain x where
          t5: "launches t5 = []" and x: "ignore_by_output2 sp (stdout o2) = Inr x"
          and b2: "b2 = (strip (or_empty x) \<noteq> [])"
          by (auto split: sum.splits)
        show ?thesis
        proof (cases b2)
          case True
          with fail(2) have "r = Inr RETURN_FAIL" and "t6 = []"
            by (simp_all add: io_return_def)
          with d8 t1 t3 t5 nb x b2 True run(3) pass(3) fail(3) show ?thesis
            by (intro suppressed) simp_all
        next
          case False
          with fail(2) have co: "compare_outputs env opts sp md f1 f2 o1 o2 w3 = (r, w', t6)"
            by simp
          from compare_outputs_inv [OF co] have "launches t6 = []" by simp
          with d8 t1 t3 t5 nb x b2 False run(3) pass(3) fail(3) co show ?thesis
            by (intro compared) simp_all
        qed
      qed
    qed
  qed
qed

lemma first_stage_cases [consumes 1,
    case_names run_raised bailed check_raised suppressed continued]:
  assumes "first_stage env opts sp md f1 f2 w = (r, w', t)"
  obtains
    (run_raised) e where
      "launches t = [Exec (command_line env opts (first_d8 opts) f1) (dirname (testcase opts))
                       TIMEOUT (Inl e)]"
      and "r = Inl e"
  | (bailed) o1 where
      "launches t = [Exec (command_line env opts (first_d8 opts) f1) (dirname (testcase opts))
                       TIMEOUT (Inr o1)]"
      and "HasTimedOut o1 \<or> HasCrashed o1" and "r = Inr RETURN_PASS"
  | (check_raised) o1 e where
      "launches t = [Exec (command_line env opts (first_d8 opts) f1) (dirname (testcase opts))
                       TIMEOUT (Inr o1)]"
      and "\<not> HasTimedOut o1" and "\<not> HasCrashed o1"
      and "ignore_by_output1 sp (stdout o1) = Inl e" and "r = Inl e"
  | (suppressed) o1 x where
      "launches t = [Exec (command_line env opts (first_d8 opts) f1) (dirname (testcase opts))
                       TIMEOUT (Inr o1)]"
      and "\<not> HasTimedOut o1" and "\<not> HasCrashed o1"
      and "ignore_by_output1 sp (stdout o1) = Inr x" and "strip (or_empty x) \<noteq> []"
      and "r = Inr RETURN_FAIL"
  | (continued) o1 x w2 t2 where
      "launches t = Exec (command_line env opts (first_d8 opts) f1) (dirname (testcase opts))
                      TIMEOUT (Inr o1) # launches t2"
      and "\<not> HasTimedOut o1" and "\<not> HasCrashed o1"
      and "ignore_by_output1 sp (stdout o1) = Inr x" and "strip (or_empty x) = []"
      and "second_stage env opts sp md f1 f2 o1 w2 = (r, w', t2)"
  using assms unfolding first_stage_def
proof (cases rule: io_bind_cases)
  case (raised e)
  from run_d8_inv [OF raised(1)] raised(2) show ?thesis by (intro run_raised) simp_all
next
  case run: (returned o1 w1 t1 t2)
  from run_d8_inv [OF run(1)]
  have t1: "launches t1 = [Exec (command_line env opts (first_d8 opts) f1)
                             (dirname (testcase opts)) TIMEOUT (Inr o1)]"
    by simp
  from run(2) show ?thesis
  proof (cases rule: io_bind_cases)
    case (raised e)
    from pass_bailout_inv [OF raised(1)] show ?thesis by simp
  next
    case pass: (returned b w2 t3 t4)
    from pass_bailout_inv [OF pass(1)]
    have b: "b = (HasTimedOut o1 \<or> HasCrashed o1)" and t3: "launches t3 = []"
      by simp_all
    show ?thesis
    proof (cases b)
      case True
      with pass(2) have "r = Inr RETURN_PASS" and "t4 = []"
        by (simp_all add: io_return_def)
      with t1 t3 b True run(3) pass(3) show ?thesis by (intro bailed) simp_all
    next
      case False
      with b have nb: "\<not> HasTimedOut o1" "\<not> HasCrashed o1" by simp_all
      from False pass(2) have "io_bind (fail_bailout o1 (ignore_by_output1 sp))
          (\<lambda>b. if b then io_return RETURN_FAIL
                else second_stage env opts sp md f1 f2 o1) w2 = (r, w', t4)"
        by simp
      then show ?thesis
      proof (cases rule: io_bind_cases)
        case (raised e)
        from fail_bailout_inv [OF raised(1)]
        have "launches t4 = []" and "ignore_by_output1 sp (stdout o1) = Inl e"
          by (simp_all split: sum.splits)
        with t1 t3 nb run(3) pass(3) raised(2) show ?thesis
          by (intro check_raised) simp_all
      next
        case fail: (returned b2 w3 t5 t6)
        from fail_bailout_inv [OF fail(1)] obtain x where
          t5: "launches t5 = []" and x: "ignore_by_output1 sp (stdout o1) = Inr x"
          and b2: "b2 = (strip (or_empty x) \<noteq> [])"
          by (auto split: sum.splits)
        show ?thesis
        proof (cases b2)
          case True
          with fail(2) have "r = Inr RETURN_FAIL" and "t6 = []"
            by (simp_all add: io_return_def)
          with t1 t3 t5 nb x b2 True run(3) pass(3) fail(3) show ?thesis
            by (intro suppressed) simp_all
        next
          case False
          with fail(2) have ss: "second_stage env opts sp md f1 f2 o1 w3 = (r, w', t6)"
            by simp
          with t1 t3 t5 nb x b2 False run(3) pass(3) fail(3) show ?thesis
            by (intro continued [of o1 t6 x w3]) simp_all
        qed
      qed
    qed
  qed
qed

lemma second_stage_returns:
  assumes "second_stage env opts sp md f1 f2 o1 w = (Inr x, w', t)"
  shows "x = RETURN_PASS \<or> x = RETURN_FAIL"
  using assms
proof (cases rule: second_stage_cases)
  case (compared d8 o2 y w2 t2)
  from compare_outputs_inv [OF compared(7)] show ?thesis by simp
qed simp_all

lemma first_stage_returns:
  assumes "first_stage env opts sp md f1 f2 w = (Inr x, w', t)"
  shows "x = RETURN_PASS \<or> x = RETURN_FAIL"
  using assms
proof (cases rule: first_stage_cases)
  case (continued o1 y w2 t2)
  from second_stage_returns [OF continued(6)] show ?thesis .
qed simp_all

lemma first_stage_first_bailout:
  assumes fs: "first_stage env opts sp md f1 f2 w = (r, w', t)"
    and l: "launches t = Exec a c n (Inr o1) # rest"
    and bad: "HasTimedOut o1 \<or> HasCrashed o1"
  shows "r = Inr RETURN_PASS \<and> rest = []"
  using fs
proof (cases rule: first_stage_cases)
  case (bailed o)
  with l show ?thesis by simp
qed (use l bad in simp_all)

lemma first_stage_second_bailout:
  assumes fs: "first_stage env opts sp md f1 f2 w = (r, w', t)"
    and l: "launches t = [e1, Exec a c n (Inr o2)]"
    and bad: "HasTimedOut o2 \<or> HasCrashed o2"
  shows "r = Inr RETURN_PASS"
  using fs
proof (cases rule: first_stage_cases)
  case (continued o1 x w2 t2)
  from continued(1) l have l2: "launches t2 = [Exec a c n (Inr o2)]" by simp
  from continued(6) show ?thesis
    by (cases rule: second_stage_cases) (use l2 bad in simp_all)
qed (use l in simp_all)

lemma first_stage_both_normal:
  assumes fs: "first_stage env opts sp md f1 f2 w = (r, w', t)"
    and l: "launches t = [Exec a1 c1 n1 (Inr o1), Exec a2 c2 n2 (Inr o2)]"
    and ok: "\<not> HasTimedOut o2" "\<not> HasCrashed o2"
    and nm: "no_match (ignore_by_output2 sp (stdout o2))"
    and nd: "no_difference (diff sp (stdout o1) (stdout o2))"
  shows "r = Inr RETURN_PASS"
  using fs
proof (cases rule: first_stage_cases)
  case (continued o1' x w2 t2)
  from continued(1) l have o1: "o1' = o1" and l2: "launches t2 = [Exec a2 c2 n2 (Inr o2)]"
    by simp_all
  from continued(6) show ?thesis
  proof (cases rule: second_stage_cases)
    case (compared d8 o2' y w3 t3)
    from compared(2) l2 have "o2' = o2" by simp
    with compare_outputs_inv [OF compared(7)] nd o1 show ?thesis by simp
  qed (use l2 ok nm in \<open>simp_all add: no_match_def\<close>)
qed (use l in simp_all)

lemma io_lift_inv: "io_lift x w = (r, w', t) \<Longrightarrow> r = x \<and> w' = w \<and> t = []"
  by (simp add: io_lift_def)

lemma load_stage_inv:
  assumes "load_stage env opts sp w = (r, w', t)"
  shows "(launches t = [] \<and> (\<exists>e. r = Inl e)) \<or>
         (\<exists>md fl1 fl2 t1.
            config_flags_of (first_config opts) = Inr fl1 \<and>
            config_flags_of (second_config opts) = Inr fl2 \<and>
            first_stage env opts sp md (common_flags opts @ fl1) (common_flags opts @ fl2) w
              = (r, w', t1) \<and>
            launches t = launches t1)"
  using assms unfolding load_stage_def common_flags_def [symmetric]
proof (cases rule: io_bind_cases)
  case (raised e)
  with quietD [OF quiet_open raised(1)] show ?thesis by simp
next
  case opn: (returned content w1 t1 t2)
  note q1 = quietD [OF quiet_open opn(1)]
  from opn(2) show ?thesis
  proof (cases rule: io_bind_cases)
    case (raised e)
    with io_lift_inv [OF raised(1)] q1 opn(3) show ?thesis by simp
  next
    case js: (returned md w2 t3 t4)
    note q2 = io_lift_inv [OF js(1)]
    from js(2) show ?thesis
    proof (cases rule: io_bind_cases)
      case (raised e)
      with io_lift_inv [OF raised(1)] q1 q2 opn(3) js(3) show ?thesis by simp
    next
      case c1: (returned fl1 w3 t5 t6)
      note q3 = io_lift_inv [OF c1(1)]
      from c1(2) show ?thesis
      proof (cases rule: io_bind_cases)
        case (raised e)
        with io_lift_inv [OF raised(1)] q1 q2 q3 opn(3) js(3) c1(3) show ?thesis by simp
      next
        case c2: (returned fl2 w4 t7 t8)
        note q4 = io_lift_inv [OF c2(1)]
        have "config_flags_of (first_config opts) = Inr fl1"
          and "config_flags_of (second_config opts) = Inr fl2"
          using q3 q4 by simp_all
        moreover have "first_stage env opts sp md (common_flags opts @ fl1)
            (common_flags opts @ fl2) w = (r, w', t8)"
          using c2(2) q1 q2 q3 q4 by simp
        moreover have "launches t = launches t8"
          using q1 q2 q3 q4 opn(3) js(3) c1(3) c2(3) by simp
        ultimately show ?thesis by blast
      qed
    qed
  qed
qed

lemma pipeline_inv:
  assumes "pipeline env opts w = (r, w', t)"
  shows "(launches t = [] \<and> (\<forall>x. r = Inr x \<longrightarrow> x = RETURN_FAIL)) \<or>
         (\<exists>sp md fl1 fl2 t1.
            get_suppression env (first_arch opts) (first_config opts)
              (second_arch opts) (second_config opts) = Inr sp \<and>
            config_flags_of (first_config opts) = Inr fl1 \<and>
            config_flags_of (second_config opts) = Inr fl2 \<and>
            first_stage env opts sp md (common_flags opts @ fl1) (common_flags opts @ fl2) w
              = (r, w', t1) \<and>
            launches t = launches t1)"
  using assms unfolding pipeline_def
proof (cases rule: io_bind_cases)
  case (raised e)
  with io_lift_inv [OF raised(1)] show ?thesis by simp
next
  case gs: (returned sp w1 t1 t2)
  note q1 = io_lift_inv [OF gs(1)]
  from gs(2) show ?thesis
  proof (cases rule: io_bind_cases)
    case (raised e)
    with quietD [OF quiet_test_pattern_bailout raised(1)] q1 gs(3) show ?thesis by simp
  next
    case tp: (returned b w2 t3 t4)
    note q2 = quietD [OF quiet_test_pattern_bailout tp(1)]
    show ?thesis
    proof (cases b)
      case True
      with tp(2) have "r = Inr RETURN_FAIL" and "t4 = []"
        by (simp_all add: io_return_def)
      with q1 q2 gs(3) tp(3) show ?thesis by simp
    next
      case False
      with tp(2) have "load_stage env opts sp w2 = (r, w', t4)" by simp
      from load_stage_inv [OF this]
      consider (none) "launches t4 = []" "\<exists>e. r = Inl e"
        | (some) md fl1 fl2 t5 where "config_flags_of (first_config opts) = Inr fl1"
            "config_flags_of (second_config opts) = Inr fl2"
            "first_stage env opts sp md (common_flags opts @ fl1) (common_flags opts @ fl2) w2
               = (r, w', t5)"
            "launches t4 = launches t5"
        by blast
      then show ?thesis
      proof cases
        case none
        with q1 q2 gs(3) tp(3) show ?thesis by auto
      next
        case some
        have "get_suppression env (first_arch opts) (first_config opts)
                (second_arch opts) (second_config opts) = Inr sp"
          using q1 by simp
        moreover have "launches t = launches t5"
          using q1 q2 gs(3) tp(3) some(4) by simp
        moreover have "w2 = w" using q1 q2 by simp
        ultimately show ?thesis using some(1,2,3) by blast
      qed
    qed
  qed
qed

lemma main_inv:
  assumes "main env cmdline w = (r, w', t)"
  shows "(launches t = [] \<and> (\<forall>x. r = Inr x \<longrightarrow> x = RETURN_FAIL)) \<or>
         (\<exists>opts t0 sp md fl1 fl2 t1.
            parse_args env cmdline w = (Inr opts, w, t0) \<and>
            get_suppression env (first_arch opts) (first_config opts)
              (second_arch opts) (second_config opts) = Inr sp \<and>
            config_flags_of (first_config opts) = Inr fl1 \<and>
            config_flags_of (second_config opts) = Inr fl2 \<and>
            first_stage env opts sp md (common_flags opts @ fl1) (common_flags opts @ fl2) w
              = (r, w', t1) \<and>
            launches t = launches t1)"
  using assms unfolding main_stages
proof (cases rule: io_bind_cases)
  case (raised e)
  with quietD [OF quiet_parse_args raised(1)] show ?thesis by simp
next
  case (returned opts w1 t1 t2)
  note q = quietD [OF quiet_parse_args returned(1)]
  from pipeline_inv [OF returned(2)]
  consider (none) "launches t2 = []" "\<forall>x. r = Inr x \<longrightarrow> x = RETURN_FAIL"
    | (some) sp md fl1 fl2 t5 where
        "get_suppression env (first_arch opts) (first_config opts)
           (second_arch opts) (second_config opts) = Inr sp"
        "config_flags_of (first_config opts) = Inr fl1"
        "config_flags_of (second_config opts) = Inr fl2"
        "first_stage env opts sp md (common_flags opts @ fl1) (common_flags opts @ fl2) w1
           = (r, w', t5)"
        "launches t2 = launches t5"
    by blast
  then show ?thesis
  proof cases
    case none
    with q returned(3) show ?thesis by simp
  next
    case some
    have "parse_args env cmdline w = (Inr opts, w, t1)"
      using returned(1) q by simp
    moreover have "launches t = launches t5"
      using q returned(3) some(5) by simp
    moreover have "w1 = w" using q by simp
    ultimately show ?thesis using some(1,2,3,4) by blast
  qed
qed

lemma main_returns:
  assumes "main env cmdline w = (Inr x, w', t)"
  shows "x = RETURN_PASS \<or> x = RETURN_FAIL"
  using main_inv [OF assms] by (auto dest!: first_stage_returns)

section \<open>Running the sample installation\<close>

lemma io_bind_return [simp]: "io_bind (io_return x) f = f x"
  by (rule ext) (simp add: io_bind_def io_return_def split: prod.splits)

lemma io_bind_raise [simp]: "io_bind (io_raise e) f = io_raise e"
  by (rule ext) (simp add: io_bind_def io_raise_def)

lemma io_bind_lift_Inr [simp]: "io_bind (io_lift (Inr x)) f = f x"
  by (rule ext) (simp add: io_bind_def io_lift_def split: prod.splits)

lemma io_bind_lift_Inl [simp]: "io_bind (io_lift (Inl e)) f = io_raise e"
  by (rule ext) (simp add: io_bind_def io_lift_def io_raise_def)

lemma py_assert_True [simp]: "py_assert True m = io_return ()"
  by (simp add: py_assert_def)

lemma py_assert_False [simp]: "py_assert False m = io_raise (Exception m)"
  by (simp add: py_assert_def)

lemma io_bind_exists [simp]: "io_bind (io_exists env p) f w = f (path_exists env p w) w"
  by (simp add: io_bind_def io_exists_def split: prod.splits)

lemma io_bind_isfile [simp]: "io_bind (io_isfile env p) f w = f (path_isfile env p w) w"
  by (simp add: io_bind_def io_isfile_def split: prod.splits)

lemma io_bind_open_Inr:
  "open_read env p w = Inr x \<Longrightarrow>
   io_bind (io_open env p) f w = (case f x w of (r, w2, t2) \<Rightarrow> (r, w2, Open p # t2))"
  by (simp add: io_bind_def io_open_def split: prod.splits)

lemma io_bind_open_Inl:
  "open_read env p w = Inl e \<Longrightarrow> io_bind (io_open env p) f w = (Inl e, w, [Open p])"
  by (simp add: io_bind_def io_open_def)

lemma io_bind_print [simp]:
  "io_bind (io_print s) f w = (case f () w of (r, w2, t2) \<Rightarrow> (r, w2, Print s # t2))"
  by (simp add: io_bind_def io_print_def split: prod.splits)

lemma io_bind_assoc [simp]:
  "io_bind (io_bind m f) g = io_bind m (\<lambda>x. io_bind (f x) g)"
  by (rule ext) (simp add: io_bind_def split: prod.splits sum.splits)

lemma endswith_prefix: "endswith s t = prefix (rev t) (rev s)"
  by (simp add: endswith_def suffix_to_prefix)

lemma e1: "dirname ''/t/fuzz-1.js'' = ''/t''"
  by (simp add: dirname_def)

lemma e2: "basename ''/t/fuzz-1.js'' = ''fuzz-1.js''"
  by (simp add: basename_def)

lemma e3: "path_join ''/t'' ''resources-1.js'' = ''/t/resources-1.js''"
  by (simp add: path_join_def endswith_prefix)

lemma e4: "dirname ''/t/resources-1.js'' = ''/t''"
  by (simp add: dirname_def)

lemma e5: "splitlines (strip demo_resources) = [''meta.json'']"
  by (simp add: splitlines_def strip_def isspace_def nl_def demo_resources_def)

lemma e6: "path_join ''/t'' ''meta.json'' = ''/t/meta.json''"
  by (simp add: path_join_def endswith_prefix)

lemma e7: "str 12345 = ''12345''"
  by (simp add: str_def digits.simps digit_char_def)

lemma e8: "endswith ''/b/d8'' ''.py'' = False"
  by (simp add: endswith_prefix)

lemma demo_env_sel [simp]:
  "BASE_PATH (demo_env sp md run) = ''/f''"
  "sys_executable (demo_env sp md run) = ''/usr/bin/python''"
  "path_exists (demo_env sp md run) p w = demo_exists p"
  "path_isfile (demo_env sp md run) p w = demo_exists p"
  "abspath (demo_env sp md run) p = (if prefix ''/'' p then p else ''/b/'' @ p)"
  "open_read (demo_env sp md run) p w = demo_open p"
  "json_load (demo_env sp md run) c = md"
  "sha1_hexdigest (demo_env sp md run) x = Inr (x @ ''0123456789abcdef'')"
  "get_suppression (demo_env sp md run) a1 c1 a2 c2 = Inr sp"
  "Execute (demo_env sp md run) args cwd n w = (run args w, Suc w)"
  by (simp_all add: demo_env_def)

lemma demo_files [simp]:
  "demo_open ''/t/fuzz-1.js'' = Inr ''print(42)''"
  "demo_open ''/t/resources-1.js'' = Inr demo_resources"
  "demo_open ''/t/meta.json'' = Inr ''{}''"
  "demo_exists ''/t/fuzz-1.js''"
  "demo_exists ''/t/resources-1.js''"
  "demo_exists ''/t/meta.json''"
  "demo_exists ''/b/d8''"
  by (simp_all add: demo_open_def demo_exists_def)

lemma demo_parse_args:
  "parse_args (demo_env sp md run) (Inr demo_args) w
     = (Inr demo_options, w, [Open ''/t/resources-1.js''])"
  by (simp add: parse_args_def demo_args_def demo_options_def
      SUPPORTED_ARCHS_def CONFIGS_def Let_def e1 e2 e3 e4 e5 e6
      io_bind_open_Inr io_return_def)

lemma io_bind_execute:
  "io_bind (io_execute env a c n) f w =
     (case Execute env a c n w of
        (Inl e, w1) \<Rightarrow> (Inl e, w1, [Exec a c n (Inl e)])
      | (Inr x, w1) \<Rightarrow> (case f x w1 of (r, w2, t2) \<Rightarrow> (r, w2, Exec a c n (Inr x) # t2)))"
  by (simp add: io_bind_def io_execute_def split: prod.splits sum.splits)

lemma demo_main:
  "main (demo_env sp md run) (Inr demo_args) w =
     (case pipeline (demo_env sp md run) demo_options w of
        (r, w2, t2) \<Rightarrow> (r, w2, Open ''/t/resources-1.js'' # t2))"
  by (simp add: main_stages io_bind_def demo_parse_args)

lemma demo_options_sel [simp]:
  "random_seed demo_options = 12345"
  "first_arch demo_options = ''x64''"
  "second_arch demo_options = ''x64''"
  "first_config demo_options = ''default''"
  "second_config demo_options = ''fullcode''"
  "first_d8 demo_options = ''/b/d8''"
  "second_d8 demo_options = Some ''/b/d8''"
  "testcase demo_options = ''/t/fuzz-1.js''"
  "meta_data_path demo_options = ''/t/meta.json''"
  by (simp_all add: demo_options_def)

lemma demo_configs [simp]:
  "config_flags_of ''default'' = Inr []"
  "config_flags_of ''fullcode'' = Inr [''--nocrankshaft'', ''--turbo-filter=~'']"
  by (simp_all add: config_flags_of_def CONFIGS_def)

lemma demo_preamble [simp]:
  "PREAMBLE (demo_env sp md run) = [''/f/v8_mock.js'', ''/f/v8_suppressions.js'']"
  by (simp add: PREAMBLE_def path_join_def endswith_prefix)

lemma scenario_timeout:
  "main (demo_env (demo_suppression None (Some ''crbug.com/1'') None None)
           (Inr demo_metadata) (\<lambda>args w. Inr timed_out)) (Inr demo_args) 0 =
     (Inr 0, 1,
      [Open ''/t/resources-1.js'', Open ''/t/fuzz-1.js'', Open ''/t/meta.json'',
       Exec ([''/b/d8''] @ FLAGS @ [''--random-seed'', ''12345'',
               ''/f/v8_mock.js'', ''/f/v8_suppressions.js'', ''/t/fuzz-1.js''])
         ''/t'' 3 (Inr timed_out),
       Print ''# V8 correctness - T-I-M-E-O-U-T 1''])"
  apply (simp add: demo_main pipeline_def load_stage_def first_stage_def
      demo_suppression_def test_pattern_bailout_def io_bind_open_Inr strip_def or_empty_def
      run_d8_def io_bind_execute e1 e7 e8 TIMEOUT_def RETURN_PASS_def
      pass_bailout_def timed_out_def str_def digits.simps digit_char_def)
  apply (simp add: io_return_def)
  done

lemma script_pass:
  "main env cmdline w = (Inr x, w', tr) \<Longrightarrow> script env cmdline w = (Inr x, w', tr)"
  by (simp add: script_def)

lemma scenario_crash:
  "main (demo_env (demo_suppression None None (Some ''crbug.com/2'') None)
           (Inr demo_metadata) (\<lambda>args w. if w = 0 then Inr (printed ''42'') else Inr crashed))
        (Inr demo_args) 0 =
     (Inr 0, 2,
      [Open ''/t/resources-1.js'', Open ''/t/fuzz-1.js'', Open ''/t/meta.json'',
       Exec (demo_command []) ''/t'' 3 (Inr (printed ''42'')),
       Exec (demo_command [''--nocrankshaft'', ''--turbo-filter=~'']) ''/t'' 3 (Inr crashed),
       Print ''# V8 correctness - C-R-A-S-H 2''])"
  apply (simp add: demo_main pipeline_def load_stage_def first_stage_def second_stage_def
      demo_suppression_def test_pattern_bailout_def fail_bailout_def
      io_bind_open_Inr strip_def or_empty_def
      run_d8_def io_bind_execute e1 e7 e8 TIMEOUT_def RETURN_PASS_def demo_command_def
      pass_bailout_def printed_def crashed_def str_def digits.simps digit_char_def)
  apply (simp add: io_return_def)
  done

lemma timeout_run: "main timeout_env (Inr demo_args) 0 = (Inr 0, 1, timeout_trace)"
  unfolding timeout_env_def timeout_trace_def demo_command_def
  using scenario_timeout by simp

lemma crash_run: "main crash_env (Inr demo_args) 0 = (Inr 0, 2, crash_trace)"
  unfolding crash_env_def crash_trace_def
  by (rule scenario_crash)

lemma ensuresD: "ensures m P \<Longrightarrow> m w = (Inr x, w', t) \<Longrightarrow> P x"
  by (auto simp: ensures_def)

lemma ensures_return: "P x \<Longrightarrow> ensures (io_return x) P"
  by (simp add: ensures_def io_return_def)

lemma ensures_bind:
  assumes "\<And>x. ensures (f x) P"
  shows "ensures (io_bind m f) P"
  unfolding ensures_def
proof (intro allI impI)
  fix w x w' t
  assume "io_bind m f w = (Inr x, w', t)"
  then show "P x"
    by (cases rule: io_bind_cases) (auto dest: ensuresD [OF assms])
qed

lemma ensures_bind_assert:
  assumes "c \<Longrightarrow> ensures (f ()) P"
  shows "ensures (io_bind (py_assert c msg) f) P"
proof (cases c)
  case True
  with assms show ?thesis by simp
next
  case False
  then show ?thesis by (simp add: ensures_def io_raise_def)
qed

lemma ensures_bind_lift:
  assumes "\<And>x. r = Inr x \<Longrightarrow> ensures (f x) P"
  shows "ensures (io_bind (io_lift r) f) P"
proof (cases r)
  case (Inl e)
  then show ?thesis by (simp add: ensures_def io_raise_def)
next
  case (Inr x)
  with assms show ?thesis by simp
qed

lemma parse_args_ensures:
  "ensures (parse_args env cmdline)
     (\<lambda>opts. \<exists>a. cmdline = Inr a \<and>
        random_seed opts = random_seed a \<and>
        first_arch opts = first_arch a \<and> second_arch opts = second_arch a \<and>
        first_config opts = first_config a \<and> second_config opts = second_config a \<and>
        testcase opts = testcase a \<and>
        first_d8 opts = abspath env (first_d8 a) \<and>
        second_d8 opts = Some (abspath env
          (case second_d8 a of None \<Rightarrow> first_d8 a
           | Some s \<Rightarrow> if s = [] then first_d8 a else s)) \<and>
        (first_arch a \<noteq> second_arch a \<or> first_config a \<noteq> second_config a) \<and>
        first_arch a \<in> set SUPPORTED_ARCHS \<and> second_arch a \<in> set SUPPORTED_ARCHS \<and>
        first_config a \<in> fst ` set CONFIGS \<and> second_config a \<in> fst ` set CONFIGS)"
  unfolding parse_args_def Let_def
  by (intro ensures_bind_lift ensures_bind_assert ensures_bind ensures_return) simp

lemmas demo_run_simps =
  demo_main pipeline_def load_stage_def first_stage_def second_stage_def compare_outputs_def
  demo_suppression_def test_pattern_bailout_def fail_bailout_def pass_bailout_def
  io_bind_open_Inr strip_def or_empty_def isspace_def run_d8_def io_bind_execute e1 e7 e8
  TIMEOUT_def RETURN_PASS_def RETURN_FAIL_def demo_command_def
  printed_def crashed_def timed_out_def str_def digits.simps digit_char_def

lemma suppressed_run: "main suppressed_env (Inr demo_args) 0 = (Inr 2, 2, suppressed_trace)"
  unfolding suppressed_env_def suppressed_trace_def
  apply (simp add: demo_run_simps)
  apply (simp add: io_return_def io_bind_def RETURN_FAIL_def RETURN_PASS_def)
  done

lemma same_run: "main same_env (Inr demo_args) 0 = (Inr 0, 2, same_trace)"
  unfolding same_env_def same_trace_def
  apply (simp add: demo_run_simps)
  apply (simp add: io_return_def io_bind_def RETURN_FAIL_def RETURN_PASS_def)
  done

lemma main_first_stage:
  assumes m: "main env (Inr a) w = (r, w', tr)" and l: "launches tr \<noteq> []"
    and sp: "get_suppression env (first_arch a) (first_config a)
               (second_arch a) (second_config a) = Inr sp"
  obtains opts md fl1 fl2 t0 t1 where
    "parse_args env (Inr a) w = (Inr opts, w, t0)"
    and "config_flags_of (first_config opts) = Inr fl1"
    and "config_flags_of (second_config opts) = Inr fl2"
    and "first_stage env opts sp md (common_flags opts @ fl1) (common_flags opts @ fl2) w
           = (r, w', t1)"
    and "launches tr = launches t1"
  using main_inv [OF m]
proof (elim disjE conjE exE)
  assume "launches tr = []"
  with l show thesis by simp
next
  fix opts t0 sp' md fl1 fl2 t1
  assume p: "parse_args env (Inr a) w = (Inr opts, w, t0)"
    and sp': "get_suppression env (first_arch opts) (first_config opts)
               (second_arch opts) (second_config opts) = Inr sp'"
    and c1: "config_flags_of (first_config opts) = Inr fl1"
    and c2: "config_flags_of (second_config opts) = Inr fl2"
    and fs: "first_stage env opts sp' md (common_flags opts @ fl1) (common_flags opts @ fl2) w
           = (r, w', t1)"
    and lt: "launches tr = launches t1"
  from ensuresD [OF parse_args_ensures p]
  have "first_arch opts = first_arch a" "second_arch opts = second_arch a"
    "first_config opts = first_config a" "second_config opts = second_config a"
    by simp_all
  with sp sp' have "sp' = sp" by simp
  with fs have "first_stage env opts sp md (common_flags opts @ fl1) (common_flags opts @ fl2) w
           = (r, w', t1)" by simp
  from that [OF p c1 c2 this lt] show thesis .
qed

lemma io_bind_result:
  "m w = (Inr x, w1, t1) \<Longrightarrow>
   io_bind m f w = (case f x w1 of (r, w2, t2) \<Rightarrow> (r, w2, t1 @ t2))"
  by (simp add: io_bind_def)

lemma io_bind_error: "m w = (Inl e, w1, t1) \<Longrightarrow> io_bind m f w = (Inl e, w1, t1)"
  by (simp add: io_bind_def)

lemma test_pattern_bailout_match:
  assumes "open_read env tc w = Inr src" and "f src = Inr x" and "strip (or_empty x) \<noteq> []"
  shows "test_pattern_bailout env tc f w =
           (Inr True, w, [Open tc, Print (FAILURE_HEADER_TEMPLATE [] [] (strip (or_empty x)))])"
  using assms
  by (simp add: test_pattern_bailout_def io_bind_open_Inr Let_def io_return_def)

lemma test_pattern_bailout_no_match:
  assumes "open_read env tc w = Inr src" and "f src = Inr x" and "strip (or_empty x) = []"
  shows "test_pattern_bailout env tc f w = (Inr False, w, [Open tc])"
  using assms
  by (simp add: test_pattern_bailout_def io_bind_open_Inr Let_def io_return_def)

lemma fail_bailout_no_match:
  assumes "f (stdout out) = Inr x" and "strip (or_empty x) = []"
  shows "fail_bailout out f w = (Inr False, w, [])"
  using assms by (simp add: fail_bailout_def Let_def io_return_def)

lemma main_prerun_match:
  assumes p: "parse_args env cmdline w = (Inr opts, w1, t0)"
    and sp: "get_suppression env (first_arch opts) (first_config opts)
               (second_arch opts) (second_config opts) = Inr sp"
    and src: "open_read env (testcase opts) w1 = Inr src"
    and x: "ignore sp src = Inr x" and m: "strip (or_empty x) \<noteq> []"
  shows "main env cmdline w =
           (Inr RETURN_FAIL, w1,
            t0 @ [Open (testcase opts),
                  Print (FAILURE_HEADER_TEMPLATE [] [] (strip (or_empty x)))])"
proof -
  have "pipeline env opts w1 =
          (Inr RETURN_FAIL, w1,
           [Open (testcase opts), Print (FAILURE_HEADER_TEMPLATE [] [] (strip (or_empty x)))])"
    unfolding pipeline_def
    by (simp add: sp io_return_def
        io_bind_result [of "test_pattern_bailout env (testcase opts) (ignore sp)" w1,
          OF test_pattern_bailout_match [of env "testcase opts" w1 src "ignore sp" x,
               OF src x m]])
  then show ?thesis
    unfolding main_stages
    by (simp add: io_bind_result [of "parse_args env cmdline" w, OF p])
qed

lemma strip_blank:
  assumes "\<forall>c\<in>set s. isspace c"
  shows "strip s = []"
  using assms by (auto simp: strip_def dest: set_dropWhileD)

lemma parse_args_json_load:
  "parse_args (env\<lparr>json_load := j\<rparr>) cmdline = parse_args env cmdline"
proof -
  have "io_exists (env\<lparr>json_load := j\<rparr>) = io_exists env"
    and "io_isfile (env\<lparr>json_load := j\<rparr>) = io_isfile env"
    and "io_open (env\<lparr>json_load := j\<rparr>) = io_open env"
    and "abspath (env\<lparr>json_load := j\<rparr>) = abspath env"
    by (intro ext, simp add: io_exists_def io_isfile_def io_open_def)+
  then show ?thesis unfolding parse_args_def by (simp only:)
qed

lemma script_returned:
  "main env cmdline w = (Inr x, w1, t) \<Longrightarrow> script env cmdline w = (Inr x, w1, t)"
  by (simp add: script_def)

lemma script_exception:
  "main env cmdline w = (Inl (Exception msg), w1, t) \<Longrightarrow>
   script env cmdline w =
     (Inr RETURN_FAIL, w1,
      t @ [Print (FAILURE_HEADER_TEMPLATE [] [] ''internal_error''),
           Print (''# Internal error: '' @ msg), PrintExc (Exception msg)])"
  by (simp add: script_def)

lemma script_system_exit:
  "main env cmdline w = (Inl SystemExit, w1, t) \<Longrightarrow>
   script env cmdline w =
     (Inr RETURN_FAIL, w1, t @ [Print (FAILURE_HEADER_TEMPLATE [] [] ''wrong_usage'')])"
  by (simp add: script_def)

lemma io_bind_assert:
  "io_bind (py_assert c m) f = (if c then f () else io_raise (Exception m))"
  by (simp add: py_assert_def)

lemma parse_args_rejects:
  assumes "(first_arch a = second_arch a \<and> first_config a = second_config a) \<or>
           first_arch a \<notin> set SUPPORTED_ARCHS \<or> second_arch a \<notin> set SUPPORTED_ARCHS \<or>
           first_config a \<notin> fst ` set CONFIGS \<or> second_config a \<notin> fst ` set CONFIGS"
  shows "\<exists>msg. parse_args env (Inr a) w = (Inl (Exception msg), w, [])"
proof -
  define c1 where "c1 = (first_arch a \<noteq> second_arch a \<or> first_config a \<noteq> second_config a)"
  define c2 where "c2 = (first_arch a \<in> set SUPPORTED_ARCHS)"
  define c3 where "c3 = (second_arch a \<in> set SUPPORTED_ARCHS)"
  define c4 where "c4 = (first_config a \<in> fst ` set CONFIGS)"
  define c5 where "c5 = (second_config a \<in> fst ` set CONFIGS)"
  from assms have bad: "\<not> (c1 \<and> c2 \<and> c3 \<and> c4 \<and> c5)"
    unfolding c1_def c2_def c3_def c4_def c5_def by blast
  have "parse_args env (Inr a) w =
          (if c1 then if c2 then if c3 then if c4 then if c5
             then parse_args env (Inr a) w
             else (Inl (Exception []), w, [])
             else (Inl (Exception []), w, [])
             else (Inl (Exception []), w, [])
             else (Inl (Exception []), w, [])
           else (Inl (Exception ''Need either arch or config difference.''), w, []))"
    unfolding parse_args_def c1_def c2_def c3_def c4_def c5_def
    by (simp add: io_bind_assert io_raise_def)
  with bad show ?thesis by (metis (full_types))
qed

lemma blank_is_no_match:
  assumes "x = None \<or> (\<exists>s. x = Some s \<and> (\<forall>c\<in>set s. isspace c))"
  shows "strip (or_empty x) = []"
  using assms by (auto simp: or_empty_def strip_blank)

lemma after_first_sound: "after_first p s = Some r \<Longrightarrow> \<exists>a. s = a @ p @ r"
proof (induction s)
  case Nil
  then show ?case by (simp split: if_splits)
next
  case (Cons c s)
  show ?case
  proof (cases "prefix p (c # s)")
    case True
    with Cons.prems have r: "r = drop (length p) (c # s)" by simp
    from True obtain z where z: "c # s = p @ z" by (auto simp: prefix_def)
    with r have "r = z" by simp
    with z have "c # s = [] @ p @ r" by simp
    then show ?thesis by blast
  next
    case False
    with Cons.prems have "after_first p s = Some r" by simp
    from Cons.IH [OF this] obtain a where "s = a @ p @ r" by blast
    then have "c # s = (c # a) @ p @ r" by simp
    then show ?thesis by blast
  qed
qed

lemma after_first_complete: "\<exists>x. after_first p (a @ p @ r) = Some (x @ r)"
proof (induction a)
  case Nil
  show ?case
  proof (cases "p @ r")
    case Nil
    then show ?thesis by simp
  next
    case (Cons c s)
    have "prefix p (p @ r)" by simp
    with Cons have "after_first p (p @ r) = Some (drop (length p) (p @ r))" by simp
    then have "after_first p ([] @ p @ r) = Some ([] @ r)" by simp
    then show ?thesis by blast
  qed
next
  case (Cons c a)
  show ?case
  proof (cases "prefix p (c # a @ p @ r)")
    case True
    then have "after_first p ((c # a) @ p @ r) = Some (drop (length p) (((c # a) @ p) @ r))"
      by simp
    also have "drop (length p) (((c # a) @ p) @ r) = drop (length p) ((c # a) @ p) @ r"
      by (simp only: drop_append) simp
    finally show ?thesis by blast
  next
    case False
    then have "after_first p ((c # a) @ p @ r) = after_first p (a @ p @ r)" by simp
    with Cons.IH show ?thesis by simp
  qed
qed

lemma in_order_mono: "in_order ps r \<Longrightarrow> in_order ps (x @ r)"
proof (induction ps arbitrary: r x)
  case Nil
  show ?case by simp
next
  case (Cons p ps)
  from Cons.prems obtain r1 where a: "after_first p r = Some r1" and i: "in_order ps r1"
    by (auto split: option.splits)
  from after_first_sound [OF a] obtain b where "r = b @ p @ r1" by blast
  then have "x @ r = (x @ b) @ p @ r1" by simp
  with after_first_complete [of p "x @ b" r1]
  obtain y where "after_first p (x @ r) = Some (y @ r1)" by auto
  with Cons.IH [OF i, of y] show ?case by simp
qed

lemma in_order_Cons:
  "in_order (p # ps) s \<longleftrightarrow> (\<exists>a r. s = a @ p @ r \<and> in_order ps r)"
proof
  assume "in_order (p # ps) s"
  then obtain r where a: "after_first p s = Some r" and i: "in_order ps r"
    by (auto split: option.splits)
  from after_first_sound [OF a] i show "\<exists>a r. s = a @ p @ r \<and> in_order ps r" by blast
next
  assume "\<exists>a r. s = a @ p @ r \<and> in_order ps r"
  then obtain a r where s: "s = a @ p @ r" and i: "in_order ps r" by blast
  from after_first_complete [of p a r] obtain x where
    "after_first p (a @ p @ r) = Some (x @ r)" by blast
  with s in_order_mono [OF i, of x] show "in_order (p # ps) s" by simp
qed

lemma in_order_appendI: "in_order ps r \<Longrightarrow> in_order (p # ps) (a @ p @ r)"
  unfolding in_order_Cons by blast

lemma FAILURE_TEMPLATE_parts:
  "FAILURE_TEMPLATE d =
     [] @ report_header d @
     (''#'' @ nl) @ check_marker @
     (''#'' @ nl @ ''# Compared '' @ first_config_label d @ '' with '' @
        second_config_label d @ nl @ ''#'' @ nl) @
     flag_dump (first_config_label d) (first_config_flags d) @
     [] @ flag_dump (second_config_label d) (second_config_flags d) @
     (''#'' @ nl) @ diff_text d @
     (''#'' @ nl) @ output_block (first_config_label d) (first_config_output d) @
     (''#'' @ nl) @ output_block (second_config_label d) (second_config_output d) @ []"
  by (simp add: FAILURE_TEMPLATE_def report_header_def check_marker_def flag_dump_def
      diff_text_def output_block_def)

lemma diff_run: "main diff_env (Inr demo_args) 0 = (Inr 2, 2, diff_trace)"
  unfolding diff_env_def diff_trace_def diff_report_def
  apply (simp add: demo_run_simps sources_fingerprint_def getitem_sources_def iterate_def
      hsh_def demo_metadata_def FLAGS_def Let_def)
  apply (simp add: io_return_def io_bind_def RETURN_FAIL_def RETURN_PASS_def)
  done

lemma yieldsD: "yields m Q \<Longrightarrow> m w = (Inr x, w', t) \<Longrightarrow> Q x t"
  unfolding yields_def by blast

lemma silentD: "silent m \<Longrightarrow> m w = (r, w', t) \<Longrightarrow> t = []"
  unfolding silent_def by blast

lemma yields_return: "Q x [] \<Longrightarrow> yields (io_return x) Q"
  by (simp add: yields_def io_return_def)

lemma yields_bind:
  assumes "yields m P" and "\<And>v t1. P v t1 \<Longrightarrow> yields (f v) (\<lambda>x t2. Q x (t1 @ t2))"
  shows "yields (io_bind m f) Q"
  unfolding yields_def
proof (intro allI impI)
  fix w x w' t
  assume "io_bind m f w = (Inr x, w', t)"
  then show "Q x t"
  proof (cases rule: io_bind_cases)
    case (raised e)
    then show ?thesis by simp
  next
    case (returned v w1 t1 t2)
    from yieldsD [OF assms(1) returned(1)] have "P v t1" .
    from yieldsD [OF assms(2) [OF this] returned(2)] returned(3) show ?thesis by simp
  qed
qed

lemma yields_bind_silent:
  assumes "silent m" and "\<And>v. yields (f v) Q"
  shows "yields (io_bind m f) Q"
  unfolding yields_def
proof (intro allI impI)
  fix w x w' t
  assume "io_bind m f w = (Inr x, w', t)"
  then show "Q x t"
  proof (cases rule: io_bind_cases)
    case (raised e)
    then show ?thesis by simp
  next
    case (returned v w1 t1 t2)
    from silentD [OF assms(1) returned(1)] have "t1 = []" .
    with yieldsD [OF assms(2) returned(2)] returned(3) show ?thesis by simp
  qed
qed

lemma yields_bind_lift:
  assumes "\<And>x. r = Inr x \<Longrightarrow> yields (f x) Q"
  shows "yields (io_bind (io_lift r) f) Q"
proof (cases r)
  case (Inl e)
  then show ?thesis by (simp add: yields_def io_raise_def)
next
  case (Inr x)
  with assms show ?thesis by simp
qed

lemma yields_bind_assert:
  assumes "c \<Longrightarrow> yields (f ()) Q"
  shows "yields (io_bind (py_assert c msg) f) Q"
proof (cases c)
  case True
  with assms show ?thesis by simp
next
  case False
  then show ?thesis by (simp add: yields_def io_raise_def)
qed

lemma yields_bind_open:
  assumes "\<And>content. yields (f content) (\<lambda>x t. Q x (Open p # t))"
  shows "yields (io_bind (io_open env p) f) Q"
  unfolding yields_def
proof (intro allI impI)
  fix w x w' t
  assume "io_bind (io_open env p) f w = (Inr x, w', t)"
  then show "Q x t"
  proof (cases rule: io_bind_cases)
    case (raised e)
    then show ?thesis by simp
  next
    case (returned v w1 t1 t2)
    from returned(1) have "t1 = [Open p]" by (simp add: io_open_def)
    with yieldsD [OF assms returned(2)] returned(3) show ?thesis by simp
  qed
qed

lemma silent_return [simp]: "silent (io_return x)"
  by (simp add: silent_def io_return_def)

lemma silent_raise [simp]: "silent (io_raise e)"
  by (simp add: silent_def io_raise_def)

lemma silent_assert [simp]: "silent (py_assert c m)"
  by (simp add: py_assert_def)

lemma silent_exists [simp]: "silent (io_exists env p)"
  by (simp add: silent_def io_exists_def)

lemma silent_isfile [simp]: "silent (io_isfile env p)"
  by (simp add: silent_def io_isfile_def)

lemma silent_if [simp]: "silent a \<Longrightarrow> silent b \<Longrightarrow> silent (if c then a else b)"
  by simp

lemma parse_args_yields:
  "yields (parse_args env cmdline)
     (\<lambda>opts t. \<exists>a. cmdline = Inr a \<and> t = [Open (resources_path a)])"
  unfolding parse_args_def Let_def resources_path_def
  by (intro yields_bind_lift yields_bind_assert yields_bind_open yields_bind_silent
      yields_return) simp_all

lemma parse_args_trace:
  assumes "parse_args env (Inr a) w = (Inr opts, w1, t0)"
  shows "t0 = [Open (resources_path a)] \<and> w1 = w \<and> testcase opts = testcase a"
proof -
  from yieldsD [OF parse_args_yields assms] have "t0 = [Open (resources_path a)]" by simp
  moreover from quietD [OF quiet_parse_args assms] have "w1 = w" by simp
  moreover from ensuresD [OF parse_args_ensures assms] have "testcase opts = testcase a"
    by simp
  ultimately show ?thesis by simp
qed

lemma reported_append: "reported x t2 \<Longrightarrow> reported x (t1 @ t2)"
  by (cases "rev t2") (simp_all add: reported_def)

lemma reported_Print:
  "(x = 0 \<and> pass_message s) \<or> (x = 2 \<and> fail_message s) \<Longrightarrow> reported x (t @ [Print s])"
  by (simp add: reported_def)

lemma fail_message_header [simp]: "fail_message (FAILURE_HEADER_TEMPLATE c s l)"
  by (simp add: fail_message_def FAILURE_HEADER_TEMPLATE_def)

lemma fail_message_report [simp]: "fail_message (FAILURE_TEMPLATE d)"
  by (simp add: fail_message_def FAILURE_TEMPLATE_def FAILURE_HEADER_TEMPLATE_def)

lemma header_only_report_eq: "FAILURE_HEADER_TEMPLATE [] [] l = header_only_report l"
  by (simp add: FAILURE_HEADER_TEMPLATE_def header_only_report_def)

lemma yields_reported_bind:
  assumes "\<And>v. yields (f v) reported"
  shows "yields (io_bind m f) reported"
proof (rule yields_bind [where P = "\<lambda>v t. True"])
  show "yields m (\<lambda>v t. True)" by (simp add: yields_def)
next
  fix v t1
  from assms [of v] show "yields (f v) (\<lambda>x t2. reported x (t1 @ t2))"
    unfolding yields_def by (blast intro: reported_append)
qed

lemma yields_reported_bailout:
  assumes "yields m (\<lambda>b t. b \<longrightarrow> reported v t)" and "yields g reported"
  shows "yields (io_bind m (\<lambda>b. if b then io_return v else g)) reported"
  unfolding yields_def
proof (intro allI impI)
  fix w x w' t
  assume "io_bind m (\<lambda>b. if b then io_return v else g) w = (Inr x, w', t)"
  then show "reported x t"
  proof (cases rule: io_bind_cases)
    case (raised e)
    then show ?thesis by simp
  next
    case (returned b w1 t1 t2)
    show ?thesis
    proof (cases b)
      case True
      with returned(2) have "x = v" and "t2 = []" by (simp_all add: io_return_def)
      with yieldsD [OF assms(1) returned(1)] True returned(3) show ?thesis by simp
    next
      case False
      with returned(2) have "g w1 = (Inr x, w', t2)" by simp
      from reported_append [OF yieldsD [OF assms(2) this]] returned(3) show ?thesis by simp
    qed
  qed
qed

lemma test_pattern_bailout_yields:
  "yields (test_pattern_bailout env tc f) (\<lambda>b t. b \<longrightarrow> reported RETURN_FAIL t)"
  by (auto simp: yields_def test_pattern_bailout_def io_bind_def io_open_def io_lift_def
      io_print_def io_return_def Let_def reported_def RETURN_FAIL_def
      split: sum.splits if_splits)

lemma fail_bailout_yields:
  "yields (fail_bailout out f) (\<lambda>b t. b \<longrightarrow> reported RETURN_FAIL t)"
  by (auto simp: yields_def fail_bailout_def io_bind_def io_lift_def
      io_print_def io_return_def Let_def reported_def RETURN_FAIL_def
      split: sum.splits if_splits)

lemma str_1_2: "str 1 = ''1''" "str 2 = ''2''"
  by (simp_all add: str_def digits.simps digit_char_def)

lemma pass_bailout_yields:
  assumes "n = 1 \<or> n = 2"
  shows "yields (pass_bailout out n) (\<lambda>b t. b \<longrightarrow> reported RETURN_PASS t)"
  using assms
  by (auto simp: yields_def pass_bailout_def io_bind_def io_print_def io_return_def
      reported_def RETURN_PASS_def pass_message_def str_1_2 split: if_splits)

lemma compare_outputs_yields:
  "yields (compare_outputs env opts sp md f1 f2 o1 o2) reported"
  by (auto simp: yields_def compare_outputs_def io_bind_def io_lift_def io_print_def
      io_return_def Let_def reported_def RETURN_PASS_def RETURN_FAIL_def pass_message_def
      split: sum.splits if_splits)

lemma second_stage_yields: "yields (second_stage env opts sp md f1 f2 o1) reported"
  unfolding second_stage_def
  by (intro yields_reported_bind yields_reported_bailout [OF pass_bailout_yields]
      yields_reported_bailout [OF fail_bailout_yields] compare_outputs_yields) simp

lemma first_stage_yields: "yields (first_stage env opts sp md f1 f2) reported"
  unfolding first_stage_def
  by (intro yields_reported_bind yields_reported_bailout [OF pass_bailout_yields]
      yields_reported_bailout [OF fail_bailout_yields] second_stage_yields) simp

lemma load_stage_yields: "yields (load_stage env opts sp) reported"
  unfolding load_stage_def
  by (intro yields_reported_bind first_stage_yields)

lemma pipeline_yields: "yields (pipeline env opts) reported"
  unfolding pipeline_def
  by (intro yields_reported_bind yields_reported_bailout [OF test_pattern_bailout_yields]
      load_stage_yields)

lemma main_yields: "yields (main env cmdline) reported"
  unfolding main_stages by (intro yields_reported_bind pipeline_yields)

lemma same_config_rejected:
  "main env (Inr same_config_args) w
     = (Inl (Exception ''Need either arch or config difference.''), w, [])"
  unfolding main_stages
  by (rule io_bind_error [of "parse_args env (Inr same_config_args)" w])
     (simp add: parse_args_def same_config_args_def demo_args_def io_raise_def)

lemma second_stage_launches:
  assumes "second_stage env opts sp md f1 f2 o1 w = (r, w', t)"
  shows "launches t = [] \<or>
         (\<exists>d8 res. second_d8 opts = Some d8 \<and>
            launches t = [Exec (command_line env opts d8 f2) (dirname (testcase opts))
                            TIMEOUT res])"
  using assms by (cases rule: second_stage_cases) simp_all

lemma first_stage_launches:
  assumes "first_stage env opts sp md f1 f2 w = (r, w', t)"
  shows "\<exists>res1.
           launches t = [Exec (command_line env opts (first_d8 opts) f1)
                           (dirname (testcase opts)) TIMEOUT res1] \<or>
           (\<exists>d8 res2. second_d8 opts = Some d8 \<and>
              launches t = [Exec (command_line env opts (first_d8 opts) f1)
                              (dirname (testcase opts)) TIMEOUT res1,
                            Exec (command_line env opts d8 f2)
                              (dirname (testcase opts)) TIMEOUT res2])"
  using assms
proof (cases rule: first_stage_cases)
  case (continued o1 x w2 t2)
  from second_stage_launches [OF continued(6)] continued(1) show ?thesis by auto
qed simp_all

lemma command_line_eq:
  "random_seed opts = random_seed a \<Longrightarrow> testcase opts = testcase a \<Longrightarrow>
   command_line env opts d8 (common_flags opts @ fl) = wrapped_command env a d8 fl"
  by (simp add: command_line_def common_flags_def wrapped_command_def spec_command_def)

lemma config_flags_of_Inr: "config_flags_of c = Inr fl \<Longrightarrow> map_of CONFIGS c = Some fl"
  by (simp add: config_flags_of_def split: option.splits)

lemma e9: "endswith ''/b/d8.py'' ''.py'' = True"
  by (simp add: endswith_prefix)

lemma py_parse_args:
  "parse_args (demo_env sp md run) (Inr py_args) w
     = (Inr py_options, w, [Open ''/t/resources-1.js''])"
  by (simp add: parse_args_def py_args_def demo_args_def py_options_def
      SUPPORTED_ARCHS_def CONFIGS_def Let_def e1 e2 e3 e4 e5 e6
      io_bind_open_Inr io_return_def demo_exists_def)

lemma py_main:
  "main (demo_env sp md run) (Inr py_args) w =
     (case pipeline (demo_env sp md run) py_options w of
        (r, w2, t2) \<Rightarrow> (r, w2, Open ''/t/resources-1.js'' # t2))"
  by (simp add: main_stages io_bind_def py_parse_args)

lemma py_options_sel [simp]:
  "random_seed py_options = 12345"
  "first_arch py_options = ''x64''"
  "second_arch py_options = ''x64''"
  "first_config py_options = ''default''"
  "second_config py_options = ''fullcode''"
  "first_d8 py_options = ''/b/d8.py''"
  "second_d8 py_options = Some ''/b/d8.py''"
  "testcase py_options = ''/t/fuzz-1.js''"
  "meta_data_path py_options = ''/t/meta.json''"
  by (simp_all add: py_options_def)

lemma py_run: "main timeout_env (Inr py_args) 0 = (Inr 0, 1, py_trace)"
  unfolding timeout_env_def py_trace_def py_command_def
  apply (simp add: py_main pipeline_def load_stage_def first_stage_def
      demo_suppression_def test_pattern_bailout_def io_bind_open_Inr strip_def or_empty_def
      run_d8_def io_bind_execute e1 e7 e9 TIMEOUT_def RETURN_PASS_def
      pass_bailout_def timed_out_def str_def digits.simps digit_char_def)
  apply (simp add: io_return_def)
  done












lemma same_commands:
  "wrapped_command same_env demo_args (first_executable same_env demo_args) []
     = demo_command []"
  "wrapped_command same_env demo_args (second_executable same_env demo_args)
     [''--nocrankshaft'', ''--turbo-filter=~'']
     = demo_command [''--nocrankshaft'', ''--turbo-filter=~'']"
  by (simp_all add: wrapped_command_def spec_command_def first_executable_def
      second_executable_def same_env_def demo_args_def demo_command_def e7 e8)

section \<open>The verdict pipeline\<close>

text \<open>
  Claim C1. In every execution of \<^verbatim>\<open>main\<close> whose first process launch returns a
  result that has timed out or crashed, \<^verbatim>\<open>main\<close> returns \<^verbatim>\<open>RETURN_PASS\<close>, the script
  exits with status 0, and that launch is the only one: the second configuration is never
  run. Nothing is assumed about the output-based suppression, so the timeout and crash
  check comes first; the same holds for the second launch, when there is one.
\<close>

theorem timeout_or_crash_passes:
  assumes "main env cmdline w = (r, w', tr)"
  shows "(launches tr = Exec a1 c1 n1 (Inr out1) # rest \<and> (HasTimedOut out1 \<or> HasCrashed out1)
            \<longrightarrow> r = Inr RETURN_PASS \<and> rest = [] \<and> script env cmdline w = (Inr 0, w', tr))
       \<and> (launches tr = [e1, Exec a2 c2 n2 (Inr out2)] \<and> (HasTimedOut out2 \<or> HasCrashed out2)
            \<longrightarrow> r = Inr RETURN_PASS \<and> script env cmdline w = (Inr 0, w', tr))"
proof -
  have pass: "script env cmdline w = (Inr 0, w', tr)" if "r = Inr RETURN_PASS"
    using that assms by (simp add: script_def RETURN_PASS_def)
  from main_inv [OF assms] show ?thesis
  proof
    assume "launches tr = [] \<and> (\<forall>x. r = Inr x \<longrightarrow> x = RETURN_FAIL)"
    then show ?thesis by simp
  next
    assume "\<exists>opts t0 sp md fl1 fl2 t1.
        parse_args env cmdline w = (Inr opts, w, t0) \<and>
        get_suppression env (first_arch opts) (first_config opts)
          (second_arch opts) (second_config opts) = Inr sp \<and>
        config_flags_of (first_config opts) = Inr fl1 \<and>
        config_flags_of (second_config opts) = Inr fl2 \<and>
        first_stage env opts sp md (common_flags opts @ fl1) (common_flags opts @ fl2) w
          = (r, w', t1) \<and>
        launches tr = launches t1"
    then obtain opts sp md fl1 fl2 t1 where
      fs: "first_stage env opts sp md (common_flags opts @ fl1) (common_flags opts @ fl2) w
             = (r, w', t1)"
      and l: "launches tr = launches t1"
      by blast
    have "r = Inr RETURN_PASS \<and> rest = []"
      if "launches tr = Exec a1 c1 n1 (Inr out1) # rest" "HasTimedOut out1 \<or> HasCrashed out1"
      using first_stage_first_bailout [OF fs] that l by simp
    moreover have "r = Inr RETURN_PASS"
      if "launches tr = [e1, Exec a2 c2 n2 (Inr out2)]" "HasTimedOut out2 \<or> HasCrashed out2"
      using first_stage_second_bailout [OF fs] that l by simp
    ultimately show ?thesis using pass by blast
  qed
qed

theorem timeout_or_crash_passes_witness:
  "main timeout_env (Inr demo_args) 0 = (Inr 0, 1, timeout_trace) \<and>
   launches timeout_trace = [Exec (demo_command []) ''/t'' 3 (Inr timed_out)] \<and>
   HasTimedOut timed_out \<and>
   script timeout_env (Inr demo_args) 0 = (Inr 0, 1, timeout_trace) \<and>
   main crash_env (Inr demo_args) 0 = (Inr 0, 2, crash_trace) \<and>
   launches crash_trace =
     [Exec (demo_command []) ''/t'' 3 (Inr (printed ''42'')),
      Exec (demo_command [''--nocrankshaft'', ''--turbo-filter=~'']) ''/t'' 3 (Inr crashed)] \<and>
   HasCrashed crashed \<and>
   script crash_env (Inr demo_args) 0 = (Inr 0, 2, crash_trace)"
proof -
  have l1: "launches timeout_trace = [Exec (demo_command []) ''/t'' 3 (Inr timed_out)]"
    by (simp add: timeout_trace_def)
  have b1: "HasTimedOut timed_out" by (simp add: timed_out_def)
  have l2: "launches crash_trace =
     [Exec (demo_command []) ''/t'' 3 (Inr (printed ''42'')),
      Exec (demo_command [''--nocrankshaft'', ''--turbo-filter=~'']) ''/t'' 3 (Inr crashed)]"
    by (simp add: crash_trace_def)
  have b2: "HasCrashed crashed" by (simp add: crashed_def)
  from timeout_or_crash_passes [OF timeout_run] l1 b1
  have s1: "script timeout_env (Inr demo_args) 0 = (Inr 0, 1, timeout_trace)" by blast
  from timeout_or_crash_passes [OF crash_run] l2 b2
  have s2: "script crash_env (Inr demo_args) 0 = (Inr 0, 2, crash_trace)" by blast
  from timeout_run l1 b1 s1 crash_run l2 b2 s2 show ?thesis by blast
qed

text \<open>
  Claim C2 as stated fails: both runs print \<^verbatim>\<open>42\<close> and complete normally, the
  suppression of the second side matches the output, and the verdict is
  \<^verbatim>\<open>RETURN_FAIL\<close> with exit status 2.
\<close>

theorem identical_outputs_counterexample:
  "main suppressed_env (Inr demo_args) 0 = (Inr RETURN_FAIL, 2, suppressed_trace) \<and>
   launches suppressed_trace =
     [Exec (demo_command []) ''/t'' 3 (Inr (printed ''42'')),
      Exec (demo_command [''--nocrankshaft'', ''--turbo-filter=~'']) ''/t'' 3
        (Inr (printed ''42''))] \<and>
   \<not> HasTimedOut (printed ''42'') \<and> \<not> HasCrashed (printed ''42'') \<and>
   stdout (printed ''42'') = stdout (printed ''42'') \<and>
   RETURN_FAIL \<noteq> RETURN_PASS \<and>
   script suppressed_env (Inr demo_args) 0 = (Inr 2, 2, suppressed_trace)"
  using suppressed_run
  by (simp add: suppressed_trace_def printed_def RETURN_FAIL_def RETURN_PASS_def script_def)

text \<open>
  Claim C3. When \<^verbatim>\<open>suppress.ignore\<close> answers the source text of the test case with a
  string that is not blank, \<^verbatim>\<open>main\<close> returns \<^verbatim>\<open>RETURN_FAIL\<close> right after printing the
  header with that suppression, the script exits with status 2, and no process is
  launched under either configuration.
\<close>

theorem prerun_suppression_fails:
  assumes "parse_args env cmdline w = (Inr opts, w1, t0)"
    and "get_suppression env (first_arch opts) (first_config opts)
           (second_arch opts) (second_config opts) = Inr sp"
    and "open_read env (testcase opts) w1 = Inr src"
    and "ignore sp src = Inr x" and "strip (or_empty x) \<noteq> []"
  shows "fst (main env cmdline w) = Inr RETURN_FAIL \<and>
         launches (snd (snd (main env cmdline w))) = [] \<and>
         last (snd (snd (main env cmdline w))) =
           Print (FAILURE_HEADER_TEMPLATE [] [] (strip (or_empty x))) \<and>
         fst (script env cmdline w) = Inr 2 \<and>
         snd (snd (script env cmdline w)) = snd (snd (main env cmdline w))"
proof -
  note m = main_prerun_match [OF assms]
  from quietD [OF quiet_parse_args assms(1)] have "launches t0 = []" by simp
  with m script_returned [OF m] show ?thesis by (simp add: RETURN_FAIL_def)
qed

theorem prerun_suppression_fails_witness:
  "parse_args prerun_env (Inr demo_args) 0 = (Inr demo_options, 0, [Open ''/t/resources-1.js'']) \<and>
   get_suppression prerun_env (first_arch demo_options) (first_config demo_options)
     (second_arch demo_options) (second_config demo_options) = Inr prerun_suppression \<and>
   open_read prerun_env (testcase demo_options) 0 = Inr ''print(42)'' \<and>
   ignore prerun_suppression ''print(42)'' = Inr (Some ''crbug.com/4'') \<and>
   strip (or_empty (Some ''crbug.com/4'')) \<noteq> [] \<and>
   fst (main prerun_env (Inr demo_args) 0) = Inr RETURN_FAIL \<and>
   launches (snd (snd (main prerun_env (Inr demo_args) 0))) = [] \<and>
   fst (script prerun_env (Inr demo_args) 0) = Inr 2"
proof -
  have p: "parse_args prerun_env (Inr demo_args) 0
             = (Inr demo_options, 0, [Open ''/t/resources-1.js''])"
    unfolding prerun_env_def by (rule demo_parse_args)
  have g: "get_suppression prerun_env (first_arch demo_options) (first_config demo_options)
     (second_arch demo_options) (second_config demo_options) = Inr prerun_suppression"
    by (simp add: prerun_env_def)
  have s: "open_read prerun_env (testcase demo_options) 0 = Inr ''print(42)''"
    by (simp add: prerun_env_def)
  have i: "ignore prerun_suppression ''print(42)'' = Inr (Some ''crbug.com/4'')"
    by (simp add: prerun_suppression_def demo_suppression_def)
  have n: "strip (or_empty (Some ''crbug.com/4'')) \<noteq> []"
    by (simp add: strip_def or_empty_def isspace_def)
  from prerun_suppression_fails [OF p g s i n]
  have "fst (main prerun_env (Inr demo_args) 0) = Inr RETURN_FAIL"
    and "launches (snd (snd (main prerun_env (Inr demo_args) 0))) = []"
    and "fst (script prerun_env (Inr demo_args) 0) = Inr 2"
    by blast+
  with p g s i n show ?thesis by blast
qed

text \<open>
  Claim C4. When the two architectures are equal and the two configuration names are
  equal, or an architecture is not in \<^verbatim>\<open>SUPPORTED_ARCHS\<close>, or a configuration name is not a
  key of \<^verbatim>\<open>CONFIGS\<close>, \<^verbatim>\<open>parse_args\<close> raises an \<^verbatim>\<open>AssertionError\<close> before anything else
  happens: \<^verbatim>\<open>main\<close> ends with that exception and no event, and the script reports an
  internal error and exits with status 2. No process is run.
\<close>

theorem validation_rejects:
  assumes "(first_arch a = second_arch a \<and> first_config a = second_config a) \<or>
           first_arch a \<notin> set SUPPORTED_ARCHS \<or> second_arch a \<notin> set SUPPORTED_ARCHS \<or>
           first_config a \<notin> fst ` set CONFIGS \<or> second_config a \<notin> fst ` set CONFIGS"
  shows "\<exists>msg. main env (Inr a) w = (Inl (Exception msg), w, []) \<and>
           script env (Inr a) w =
             (Inr 2, w,
              [Print (FAILURE_HEADER_TEMPLATE [] [] ''internal_error''),
               Print (''# Internal error: '' @ msg), PrintExc (Exception msg)])"
proof -
  from parse_args_rejects [OF assms, where env = env and w = w] obtain msg where
    p: "parse_args env (Inr a) w = (Inl (Exception msg), w, [])"
    by blast
  have m: "main env (Inr a) w = (Inl (Exception msg), w, [])"
    unfolding main_stages by (rule io_bind_error [of "parse_args env (Inr a)" w, OF p])
  from m script_exception [OF m] show ?thesis by (simp add: RETURN_FAIL_def)
qed

theorem validation_rejects_witness:
  "first_arch same_config_args = second_arch same_config_args \<and>
   first_config same_config_args = second_config same_config_args \<and>
   (\<exists>msg. main same_env (Inr same_config_args) 0 = (Inl (Exception msg), 0, []) \<and>
      script same_env (Inr same_config_args) 0 =
        (Inr 2, 0,
         [Print (FAILURE_HEADER_TEMPLATE [] [] ''internal_error''),
          Print (''# Internal error: '' @ msg), PrintExc (Exception msg)]))"
proof -
  have h: "first_arch same_config_args = second_arch same_config_args"
    "first_config same_config_args = second_config same_config_args"
    by (simp_all add: same_config_args_def demo_args_def)
  then have "(first_arch same_config_args = second_arch same_config_args \<and>
              first_config same_config_args = second_config same_config_args) \<or>
           first_arch same_config_args \<notin> set SUPPORTED_ARCHS \<or>
           second_arch same_config_args \<notin> set SUPPORTED_ARCHS \<or>
           first_config same_config_args \<notin> fst ` set CONFIGS \<or>
           second_config same_config_args \<notin> fst ` set CONFIGS"
    by blast
  from validation_rejects [OF this, of same_env 0] h show ?thesis by blast
qed

text \<open>
  Claim C9. When a suppression method answers \<^verbatim>\<open>None\<close>, the empty string or a string of
  whitespace only, neither \<^verbatim>\<open>test_pattern_bailout\<close> nor \<^verbatim>\<open>fail_bailout\<close> triggers: each
  returns \<^verbatim>\<open>False\<close> and prints nothing, and each behaves exactly as with the answer
  \<^verbatim>\<open>None\<close>.
\<close>

theorem blank_answer_does_not_bail:
  assumes "x = None \<or> (\<exists>s. x = Some s \<and> (\<forall>c\<in>set s. isspace c))"
  shows "(open_read env tc w = Inr src \<and> f src = Inr x \<longrightarrow>
            test_pattern_bailout env tc f w = (Inr False, w, [Open tc])) \<and>
         (g (stdout out) = Inr x \<longrightarrow> fail_bailout out g w = (Inr False, w, [])) \<and>
         test_pattern_bailout env tc (\<lambda>s. Inr x) = test_pattern_bailout env tc (\<lambda>s. Inr None) \<and>
         fail_bailout out (\<lambda>s. Inr x) = fail_bailout out (\<lambda>s. Inr None)"
proof -
  note b = blank_is_no_match [OF assms]
  have n: "strip (or_empty None) = []" by (simp add: or_empty_def strip_def)
  have "test_pattern_bailout env tc f w = (Inr False, w, [Open tc])"
    if "open_read env tc w = Inr src" "f src = Inr x"
    using test_pattern_bailout_no_match [of env tc w src f x] that b by simp
  moreover have "fail_bailout out g w = (Inr False, w, [])" if "g (stdout out) = Inr x"
    using fail_bailout_no_match [of g out x] that b by simp
  moreover have "test_pattern_bailout env tc (\<lambda>s. Inr x)
                   = test_pattern_bailout env tc (\<lambda>s. Inr None)"
    by (simp add: test_pattern_bailout_def Let_def b n)
  moreover have "fail_bailout out (\<lambda>s. Inr x) = fail_bailout out (\<lambda>s. Inr None)"
    by (simp add: fail_bailout_def Let_def b n)
  ultimately show ?thesis by blast
qed

theorem blank_answer_does_not_bail_witness:
  "(Some '' '' = None \<or> (\<exists>s. Some '' '' = Some s \<and> (\<forall>c\<in>set s. isspace c))) \<and>
   open_read same_env ''/t/fuzz-1.js'' 0 = Inr ''print(42)'' \<and>
   (\<lambda>s. Inr (Some '' '')) ''print(42)'' = (Inr (Some '' '') :: exn + string option) \<and>
   (\<lambda>s. Inr (Some '' '')) (stdout (printed ''42'')) = (Inr (Some '' '') :: exn + string option) \<and>
   test_pattern_bailout same_env ''/t/fuzz-1.js'' (\<lambda>s. Inr (Some '' '')) 0
     = (Inr False, 0, [Open ''/t/fuzz-1.js'']) \<and>
   fail_bailout (printed ''42'') (\<lambda>s. Inr (Some '' '')) (0::nat) = (Inr False, 0, [])"
proof -
  have a: "Some '' '' = None \<or> (\<exists>s. Some '' '' = Some s \<and> (\<forall>c\<in>set s. isspace c))"
    by (simp add: isspace_def)
  have o: "open_read same_env ''/t/fuzz-1.js'' 0 = Inr ''print(42)''"
    by (simp add: same_env_def)
  note t = blank_answer_does_not_bail [OF a, of same_env "''/t/fuzz-1.js''" 0 "''print(42)''"
      "\<lambda>s. Inr (Some '' '')" "\<lambda>s. Inr (Some '' '')" "printed ''42''"]
  from t o have "test_pattern_bailout same_env ''/t/fuzz-1.js'' (\<lambda>s. Inr (Some '' '')) 0
     = (Inr False, 0, [Open ''/t/fuzz-1.js''])"
    and "fail_bailout (printed ''42'') (\<lambda>s. Inr (Some '' '')) (0::nat) = (Inr False, 0, [])"
    by blast+
  with a o show ?thesis by blast
qed

text \<open>
  Claim C6, as the specification has it: the order header, flag dumps, \<^verbatim>\<open>CHECK\<close> marker,
  diff text, output blocks. In the report of the sample run with two different outputs
  the \<^verbatim>\<open>CHECK\<close> marker line stands before the flag dumps and nowhere after them, so the
  parts do not occur in that order.
\<close>

theorem report_order_counterexample:
  "main diff_env (Inr demo_args) 0 = (Inr RETURN_FAIL, 2, diff_trace) \<and>
   last diff_trace = Print (FAILURE_TEMPLATE diff_report) \<and>
   \<not> in_order (spec_report_order diff_report) (FAILURE_TEMPLATE diff_report)"
proof -
  have "\<not> in_order (spec_report_order diff_report) (FAILURE_TEMPLATE diff_report)"
    by (simp add: spec_report_order_def diff_report_def FAILURE_TEMPLATE_def
        FAILURE_HEADER_TEMPLATE_def report_header_def check_marker_def flag_dump_def
        diff_text_def output_block_def nl_def FLAGS_def)
  with diff_run show ?thesis by (simp add: RETURN_FAIL_def diff_trace_def)
qed

text \<open>
  Claim C6, amended: every full report contains, in this order, the header, the
  \<^verbatim>\<open>CHECK\<close> marker line, the labelled flag dump of the first and of the second
  configuration, the diff text, and the output block of the first and of the second
  configuration, each block opened and closed with the label of its configuration.
\<close>

theorem report_order_holds:
  "in_order (report_order d) (FAILURE_TEMPLATE d)"
  unfolding report_order_def FAILURE_TEMPLATE_parts
  by (intro in_order_appendI) simp

text \<open>
  Claim C2, amended. In every execution in which two processes were launched, the second
  result is neither timed out nor crashed and the two standard outputs are identical,
  \<^verbatim>\<open>main\<close> returns \<^verbatim>\<open>RETURN_PASS\<close> and the script exits with status 0, provided that
  the suppression of the second side does not match that output. (The first result is
  then neither timed out nor crashed, or no second process would have been launched.)
  The suppression engine is not part of the launcher; of its \<^verbatim>\<open>diff\<close> only this is
  assumed: it finds no difference between a text and itself.
\<close>

theorem identical_outputs_pass_unless_suppressed:
  assumes "main env (Inr a) w = (r, w', tr)"
    and "get_suppression env (first_arch a) (first_config a)
           (second_arch a) (second_config a) = Inr sp"
    and "launches tr = [Exec args1 cwd1 n1 (Inr out1), Exec args2 cwd2 n2 (Inr out2)]"
    and "\<not> HasTimedOut out2" and "\<not> HasCrashed out2"
    and "stdout out1 = stdout out2"
    and "no_match (ignore_by_output2 sp (stdout out2))"
    and "\<forall>s. no_difference (diff sp s s)"
  shows "r = Inr RETURN_PASS \<and> script env (Inr a) w = (Inr 0, w', tr)"
proof -
  from assms(3) have ne: "launches tr \<noteq> []" by simp
  from assms(8) have "no_difference (diff sp (stdout out2) (stdout out2))" by blast
  with assms(6) have nd: "no_difference (diff sp (stdout out1) (stdout out2))" by simp
  have "r = Inr RETURN_PASS"
  proof (rule main_first_stage [OF assms(1) ne assms(2)])
    fix opts md fl1 fl2 t0 t1
    assume fs: "first_stage env opts sp md (common_flags opts @ fl1)
                  (common_flags opts @ fl2) w = (r, w', t1)"
      and lt: "launches tr = launches t1"
    from lt assms(3)
    have "launches t1 = [Exec args1 cwd1 n1 (Inr out1), Exec args2 cwd2 n2 (Inr out2)]"
      by simp
    from first_stage_both_normal [OF fs this assms(4,5,7) nd]
    show "r = Inr RETURN_PASS" .
  qed
  with assms(1) show ?thesis by (simp add: script_def RETURN_PASS_def)
qed

theorem identical_outputs_pass_unless_suppressed_witness:
  "main same_env (Inr demo_args) 0 = (Inr 0, 2, same_trace) \<and>
   get_suppression same_env (first_arch demo_args) (first_config demo_args)
     (second_arch demo_args) (second_config demo_args)
     = Inr (demo_suppression None None None None) \<and>
   launches same_trace =
     [Exec (demo_command []) ''/t'' 3 (Inr (printed ''42'')),
      Exec (demo_command [''--nocrankshaft'', ''--turbo-filter=~'']) ''/t'' 3
        (Inr (printed ''42''))] \<and>
   \<not> HasTimedOut (printed ''42'') \<and> \<not> HasCrashed (printed ''42'') \<and>
   stdout (printed ''42'') = stdout (printed ''42'') \<and>
   no_match (ignore_by_output2 (demo_suppression None None None None)
               (stdout (printed ''42''))) \<and>
   (\<forall>s. no_difference (diff (demo_suppression None None None None) s s)) \<and>
   Inr 0 = (Inr RETURN_PASS :: exn + int) \<and>
   script same_env (Inr demo_args) 0 = (Inr 0, 2, same_trace)"
proof -
  have g: "get_suppression same_env (first_arch demo_args) (first_config demo_args)
     (second_arch demo_args) (second_config demo_args)
     = Inr (demo_suppression None None None None)"
    by (simp add: same_env_def)
  have l: "launches same_trace =
     [Exec (demo_command []) ''/t'' 3 (Inr (printed ''42'')),
      Exec (demo_command [''--nocrankshaft'', ''--turbo-filter=~'']) ''/t'' 3
        (Inr (printed ''42''))]"
    by (simp add: same_trace_def)
  have n: "\<not> HasTimedOut (printed ''42'')" "\<not> HasCrashed (printed ''42'')"
    by (simp_all add: printed_def)
  have nm: "no_match (ignore_by_output2 (demo_suppression None None None None)
               (stdout (printed ''42'')))"
    by (simp add: no_match_def demo_suppression_def strip_def or_empty_def)
  have nd: "\<forall>s. no_difference (diff (demo_suppression None None None None) s s)"
    by (simp add: no_difference_def demo_suppression_def)
  note t = identical_outputs_pass_unless_suppressed [OF same_run g l n refl nm nd]
  from t have t1: "Inr 0 = (Inr RETURN_PASS :: exn + int)"
    and t2: "script same_env (Inr demo_args) 0 = (Inr 0, 2, same_trace)"
    by simp_all
  from same_run g l n nm nd t1 t2 show ?thesis by blast
qed

text \<open>
  Claim C10. When \<^verbatim>\<open>parse_args\<close> succeeds and \<^verbatim>\<open>suppress.ignore\<close> answers the source
  text of the test case with a string that is not blank, the whole execution is: the
  resources file is opened (by \<^verbatim>\<open>parse_args\<close>), the test case is opened, the header is
  printed, and \<^verbatim>\<open>main\<close> returns \<^verbatim>\<open>RETURN_FAIL\<close>; the script exits with status 2. The
  metadata file is not opened and the JSON parser is not called: the result is the same
  for every \<^verbatim>\<open>json.load\<close>, also one that always raises.
\<close>

theorem metadata_not_read_on_prerun_bailout:
  assumes "parse_args env (Inr a) w = (Inr opts, w1, t0)"
    and "get_suppression env (first_arch opts) (first_config opts)
           (second_arch opts) (second_config opts) = Inr sp"
    and "open_read env (testcase a) w = Inr src"
    and "ignore sp src = Inr x" and "strip (or_empty x) \<noteq> []"
  shows "main (env\<lparr>json_load := j\<rparr>) (Inr a) w =
           (Inr RETURN_FAIL, w,
            [Open (resources_path a), Open (testcase a),
             Print (FAILURE_HEADER_TEMPLATE [] [] (strip (or_empty x)))]) \<and>
         script (env\<lparr>json_load := j\<rparr>) (Inr a) w =
           (Inr 2, w,
            [Open (resources_path a), Open (testcase a),
             Print (FAILURE_HEADER_TEMPLATE [] [] (strip (or_empty x)))])"
proof -
  note tr = parse_args_trace [OF assms(1)]
  have p: "parse_args (env\<lparr>json_load := j\<rparr>) (Inr a) w = (Inr opts, w1, t0)"
    using assms(1) by (simp add: parse_args_json_load)
  have g: "get_suppression (env\<lparr>json_load := j\<rparr>) (first_arch opts) (first_config opts)
           (second_arch opts) (second_config opts) = Inr sp"
    using assms(2) by simp
  have s: "open_read (env\<lparr>json_load := j\<rparr>) (testcase opts) w1 = Inr src"
    using assms(3) tr by simp
  note m = main_prerun_match [OF p g s assms(4,5)]
  have m': "main (env\<lparr>json_load := j\<rparr>) (Inr a) w =
           (Inr RETURN_FAIL, w,
            [Open (resources_path a), Open (testcase a),
             Print (FAILURE_HEADER_TEMPLATE [] [] (strip (or_empty x)))])"
    using m tr by simp
  with script_returned [OF m'] show ?thesis by (simp add: RETURN_FAIL_def)
qed

theorem metadata_not_read_on_prerun_bailout_witness:
  "parse_args prerun_env (Inr demo_args) 0 = (Inr demo_options, 0, [Open ''/t/resources-1.js'']) \<and>
   get_suppression prerun_env (first_arch demo_options) (first_config demo_options)
     (second_arch demo_options) (second_config demo_options) = Inr prerun_suppression \<and>
   open_read prerun_env (testcase demo_args) 0 = Inr ''print(42)'' \<and>
   ignore prerun_suppression ''print(42)'' = Inr (Some ''crbug.com/4'') \<and>
   strip (or_empty (Some ''crbug.com/4'')) \<noteq> [] \<and>
   json_load prerun_env ''{}'' = Inl (Exception ''No JSON object could be decoded'') \<and>
   script (prerun_env\<lparr>json_load := \<lambda>s. Inl (Exception ''No JSON object could be decoded'')\<rparr>)
     (Inr demo_args) 0 =
     (Inr 2, 0,
      [Open (resources_path demo_args), Open (testcase demo_args),
       Print (FAILURE_HEADER_TEMPLATE [] [] (strip (or_empty (Some ''crbug.com/4''))))]) \<and>
   resources_path demo_args = ''/t/resources-1.js'' \<and>
   testcase demo_args = ''/t/fuzz-1.js''"
proof -
  have p: "parse_args prerun_env (Inr demo_args) 0
             = (Inr demo_options, 0, [Open ''/t/resources-1.js''])"
    unfolding prerun_env_def by (rule demo_parse_args)
  have g: "get_suppression prerun_env (first_arch demo_options) (first_config demo_options)
     (second_arch demo_options) (second_config demo_options) = Inr prerun_suppression"
    by (simp add: prerun_env_def)
  have s: "open_read prerun_env (testcase demo_args) 0 = Inr ''print(42)''"
    by (simp add: prerun_env_def demo_args_def)
  have i: "ignore prerun_suppression ''print(42)'' = Inr (Some ''crbug.com/4'')"
    by (simp add: prerun_suppression_def demo_suppression_def)
  have n: "strip (or_empty (Some ''crbug.com/4'')) \<noteq> []"
    by (simp add: strip_def or_empty_def isspace_def)
  have j: "json_load prerun_env ''{}'' = Inl (Exception ''No JSON object could be decoded'')"
    by (simp add: prerun_env_def)
  have r: "resources_path demo_args = ''/t/resources-1.js''"
    by (simp add: resources_path_def demo_args_def e1 e2 e3)
  have c: "testcase demo_args = ''/t/fuzz-1.js''" by (simp add: demo_args_def)
  note t = metadata_not_read_on_prerun_bailout [OF p g s i n,
      of "\<lambda>s. Inl (Exception ''No JSON object could be decoded'')", THEN conjunct2]
  from p g s i n j t r c show ?thesis by blast
qed

text \<open>
  Claim C5, as the specification has it: a usage error is reported with the label
  \<^verbatim>\<open>wrong_usage\<close>. A command line that asks to compare \<^verbatim>\<open>x64\<close>, \<^verbatim>\<open>default\<close> with
  itself is rejected by an assertion of \<^verbatim>\<open>parse_args\<close>, and the report carries the
  label \<^verbatim>\<open>internal_error\<close>.
\<close>

theorem usage_error_label_counterexample:
  "first_arch same_config_args = second_arch same_config_args \<and>
   first_config same_config_args = second_config same_config_args \<and>
   script same_env (Inr same_config_args) 0 =
     (Inr 2, 0,
      [Print (header_only_report ''internal_error''),
       Print ''# Internal error: Need either arch or config difference.'',
       PrintExc (Exception ''Need either arch or config difference.'')]) \<and>
   header_only_report ''internal_error'' \<noteq> header_only_report ''wrong_usage''"
proof -
  have "first_arch same_config_args = second_arch same_config_args"
    and "first_config same_config_args = second_config same_config_args"
    by (simp_all add: same_config_args_def demo_args_def)
  moreover from script_exception [OF same_config_rejected [of same_env 0]]
  have "script same_env (Inr same_config_args) 0 =
     (Inr 2, 0,
      [Print (header_only_report ''internal_error''),
       Print ''# Internal error: Need either arch or config difference.'',
       PrintExc (Exception ''Need either arch or config difference.'')])"
    by (simp add: RETURN_FAIL_def header_only_report_eq)
  moreover have "header_only_report ''internal_error'' \<noteq> header_only_report ''wrong_usage''"
    by (simp add: header_only_report_def)
  ultimately show ?thesis by blast
qed

text \<open>
  Claim C5, amended. Whatever \<^verbatim>\<open>main\<close> does, the script ends as follows. When \<^verbatim>\<open>main\<close>
  returns, its value is the exit status, and it agrees with the last line printed: 0
  after a pass line (pass, timeout or crash), 2 after a failure report (the header of a
  bailout or the full report of a difference). \<^verbatim>\<open>SystemExit\<close>, which the argument parser
  raises, is caught and reported in the header-only form with the label
  \<^verbatim>\<open>wrong_usage\<close>, status 2. Every \<^verbatim>\<open>Exception\<close>, which includes the assertions
  that reject invalid arguments, is caught and reported in the header-only form with the
  label \<^verbatim>\<open>internal_error\<close>, followed by the message and the traceback, status 2. Only
  an exception that is neither passes through.
\<close>

theorem exit_status_by_report:
  "(case main env cmdline w of
      (Inr x, w1, t) \<Rightarrow>
        script env cmdline w = (Inr x, w1, t) \<and> reported x t
    | (Inl SystemExit, w1, t) \<Rightarrow>
        script env cmdline w =
          (Inr 2, w1, t @ [Print (header_only_report ''wrong_usage'')])
    | (Inl (Exception msg), w1, t) \<Rightarrow>
        script env cmdline w =
          (Inr 2, w1,
           t @ [Print (header_only_report ''internal_error''),
                Print (''# Internal error: '' @ msg), PrintExc (Exception msg)])
    | (Inl KeyboardInterrupt, w1, t) \<Rightarrow>
        script env cmdline w = (Inl KeyboardInterrupt, w1, t))"
proof -
  obtain r w1 t where m: "main env cmdline w = (r, w1, t)"
    by (cases "main env cmdline w") blast
  show ?thesis
  proof (cases r)
    case (Inr x)
    with m yieldsD [OF main_yields, of env cmdline w x w1 t]
      script_returned [of env cmdline w x w1 t]
    show ?thesis by simp
  next
    case (Inl e)
    with m show ?thesis
      by (cases e) (simp_all add: script_def RETURN_FAIL_def header_only_report_eq)
  qed
qed

text \<open>
  Claim C7, as the specification has it: the command line starts with the executable
  path. In the sample installation with the first executable \<^verbatim>\<open>d8.py\<close> the one process
  that is run has the Python interpreter in front of the executable path.
\<close>

theorem command_line_counterexample:
  "main timeout_env (Inr py_args) 0 = (Inr RETURN_PASS, 1, py_trace) \<and>
   launches py_trace = [Exec py_command ''/t'' 3 (Inr timed_out)] \<and>
   first_executable timeout_env py_args = ''/b/d8.py'' \<and>
   map_of CONFIGS (first_config py_args) = Some [] \<and>
   py_command \<noteq> spec_command timeout_env py_args ''/b/d8.py'' [] \<and>
   py_command = ''/usr/bin/python'' # spec_command timeout_env py_args ''/b/d8.py'' []"
proof -
  have "launches py_trace = [Exec py_command ''/t'' 3 (Inr timed_out)]"
    by (simp add: py_trace_def)
  moreover have "first_executable timeout_env py_args = ''/b/d8.py''"
    by (simp add: first_executable_def timeout_env_def py_args_def demo_args_def)
  moreover have "map_of CONFIGS (first_config py_args) = Some []"
    by (simp add: CONFIGS_def py_args_def demo_args_def)
  moreover have "py_command = ''/usr/bin/python'' # spec_command timeout_env py_args ''/b/d8.py'' []"
    by (simp add: py_command_def spec_command_def timeout_env_def py_args_def demo_args_def e7)
  moreover from this have "py_command \<noteq> spec_command timeout_env py_args ''/b/d8.py'' []"
    by (metis not_Cons_self2)
  ultimately show ?thesis using py_run by (simp add: RETURN_PASS_def)
qed

text \<open>
  Claim C7, amended. In every execution of \<^verbatim>\<open>main\<close> at most two processes are run. The
  command line of each is: the Python interpreter if the executable path ends in
  \<^verbatim>\<open>.py\<close>, then the executable path, the fixed flags, \<^verbatim>\<open>--random-seed\<close> with the seed
  given, the registry's flags of the configuration, the two preamble scripts and the test
  case. The first run uses the first executable and the first configuration, the second
  run the second ones; both have the same seed, the time limit \<^verbatim>\<open>TIMEOUT\<close> and the
  directory of the test case as working directory.
\<close>

theorem command_line_composition:
  assumes m: "main env (Inr a) w = (r, w', tr)"
  shows "launches tr = [] \<or>
         (\<exists>fl1 fl2 res1.
            map_of CONFIGS (first_config a) = Some fl1 \<and>
            map_of CONFIGS (second_config a) = Some fl2 \<and>
            (launches tr =
               [Exec (wrapped_command env a (first_executable env a) fl1)
                  (dirname (testcase a)) TIMEOUT res1] \<or>
             (\<exists>res2. launches tr =
               [Exec (wrapped_command env a (first_executable env a) fl1)
                  (dirname (testcase a)) TIMEOUT res1,
                Exec (wrapped_command env a (second_executable env a) fl2)
                  (dirname (testcase a)) TIMEOUT res2])))"
  using main_inv [OF m]
proof (elim disjE conjE exE)
  assume "launches tr = []"
  then show ?thesis by simp
next
  fix opts t0 sp md fl1 fl2 t1
  assume p: "parse_args env (Inr a) w = (Inr opts, w, t0)"
    and c1: "config_flags_of (first_config opts) = Inr fl1"
    and c2: "config_flags_of (second_config opts) = Inr fl2"
    and fs: "first_stage env opts sp md (common_flags opts @ fl1) (common_flags opts @ fl2) w
           = (r, w', t1)"
    and lt: "launches tr = launches t1"
  from ensuresD [OF parse_args_ensures p]
  have o: "random_seed opts = random_seed a" "testcase opts = testcase a"
    and cf: "first_config opts = first_config a" "second_config opts = second_config a"
    and d1: "first_d8 opts = first_executable env a"
    and d2: "second_d8 opts = Some (second_executable env a)"
    by (simp_all add: first_executable_def second_executable_def)
  from c1 c2 cf have r1: "map_of CONFIGS (first_config a) = Some fl1"
    and r2: "map_of CONFIGS (second_config a) = Some fl2"
    by (simp_all add: config_flags_of_Inr)
  note ce = command_line_eq [OF o]
  from first_stage_launches [OF fs] obtain res1 where
    "launches t1 = [Exec (command_line env opts (first_d8 opts) (common_flags opts @ fl1))
                      (dirname (testcase opts)) TIMEOUT res1] \<or>
     (\<exists>d8 res2. second_d8 opts = Some d8 \<and>
        launches t1 = [Exec (command_line env opts (first_d8 opts) (common_flags opts @ fl1))
                         (dirname (testcase opts)) TIMEOUT res1,
                       Exec (command_line env opts d8 (common_flags opts @ fl2))
                         (dirname (testcase opts)) TIMEOUT res2])"
    by blast
  then consider
    (one) "launches tr = [Exec (wrapped_command env a (first_executable env a) fl1)
                            (dirname (testcase a)) TIMEOUT res1]"
  | (two) res2 where
      "launches tr = [Exec (wrapped_command env a (first_executable env a) fl1)
                        (dirname (testcase a)) TIMEOUT res1,
                      Exec (wrapped_command env a (second_executable env a) fl2)
                        (dirname (testcase a)) TIMEOUT res2]"
    using lt d1 d2 o(2) by (auto simp: ce)
  then show ?thesis
  proof cases
    case one
    with r1 r2 show ?thesis by blast
  next
    case two
    with r1 r2 show ?thesis by blast
  qed
qed

theorem command_line_composition_witness:
  "main same_env (Inr demo_args) 0 = (Inr 0, 2, same_trace) \<and>
   (launches same_trace = [] \<or>
    (\<exists>fl1 fl2 res1.
       map_of CONFIGS (first_config demo_args) = Some fl1 \<and>
       map_of CONFIGS (second_config demo_args) = Some fl2 \<and>
       (launches same_trace =
          [Exec (wrapped_command same_env demo_args (first_executable same_env demo_args) fl1)
             (dirname (testcase demo_args)) TIMEOUT res1] \<or>
        (\<exists>res2. launches same_trace =
          [Exec (wrapped_command same_env demo_args (first_executable same_env demo_args) fl1)
             (dirname (testcase demo_args)) TIMEOUT res1,
           Exec (wrapped_command same_env demo_args (second_executable same_env demo_args) fl2)
             (dirname (testcase demo_args)) TIMEOUT res2])))) \<and>
   launches same_trace =
     [Exec (demo_command []) ''/t'' 3 (Inr (printed ''42'')),
      Exec (demo_command [''--nocrankshaft'', ''--turbo-filter=~'']) ''/t'' 3
        (Inr (printed ''42''))] \<and>
   wrapped_command same_env demo_args (first_executable same_env demo_args) []
     = demo_command [] \<and>
   wrapped_command same_env demo_args (second_executable same_env demo_args)
     [''--nocrankshaft'', ''--turbo-filter=~'']
     = demo_command [''--nocrankshaft'', ''--turbo-filter=~'']"
proof -
  have l: "launches same_trace =
     [Exec (demo_command []) ''/t'' 3 (Inr (printed ''42'')),
      Exec (demo_command [''--nocrankshaft'', ''--turbo-filter=~'']) ''/t'' 3
        (Inr (printed ''42''))]"
    by (simp add: same_trace_def)
  from command_line_composition [OF same_run] same_run l same_commands
  show ?thesis by (intro conjI)
qed



end
